theory Spec2Isabelle
  imports Complex_Main "HOL-Library.Finite_Map" "HOL-Library.Monad_Syntax"
begin

section \<open>The microgrid dashboard (src/app.js)\<close>

text \<open>
  A shallow embedding of the class \<open>MicrogridDashboard\<close>. Every JavaScript number of
  the snapshot is a \<open>real\<close>: the arithmetic of the source is read exactly, so IEEE-754
  rounding is outside the model, and so are NaN and the infinities in the snapshot the
  class builds itself. The render on an object that \<open>updateFromServer\<close> received has
  them, since the coercion of a value that is not a number yields them. A JavaScript
  string is a \<open>string\<close>, one \<open>char\<close> per code unit (all code units of the source's
  literals are below 256).
\<close>

subsection \<open>The system snapshot (\<open>initializeData\<close>, lines 20-64)\<close>

text \<open>
  Field names are the source's. Where two objects of the source share a field name
  (\<open>efficiency\<close>, \<open>power\<close>, \<open>windSpeed\<close>, \<open>irradiance\<close>, \<open>voltage\<close>, \<open>id\<close>), or the
  name is a constant of HOL, the field carries its owner as a prefix.
\<close>

record solar_rec =
  dcPower :: real
  acPower :: real
  solar_efficiency :: real
  solar_irradiance :: real
  moduleTemp :: real

record wind_rec =
  wind_power :: real
  wind_windSpeed :: real
  wind_efficiency :: real

record cbg_rec =
  cbg_power :: real
  status :: string
  cbg_efficiency :: real

record generation_rec =
  solar :: solar_rec
  wind :: wind_rec
  cbg :: cbg_rec
  totalGeneration :: real

record pack_rec =
  pack_id :: real
  soc :: real
  soh :: real
  temp :: real
  pack_voltage :: real

record storage_rec =
  overallSOC :: real
  totalCapacity :: real
  chargePower :: real
  dischargePower :: real
  batteryPacks :: "pack_rec list"

record demand_rec =
  totalLoad :: real
  criticalLoads :: real
  flexibleLoads :: real
  peakReduction :: real

record powerQuality_rec =
  voltage :: real
  frequency :: real
  thd :: real

record systemMetrics_rec =
  overallEfficiency :: real
  uptime :: real
  powerQuality :: powerQuality_rec

record weather_rec =
  temperature :: real
  humidity :: real
  windSpeed :: real
  irradiance :: real
  cloudCover :: real

text \<open>
  An alert's \<open>type\<close> and \<open>message\<close> are read out of an array by a computed index;
  \<open>None\<close> is JavaScript's \<open>undefined\<close>, the value of a read out of range.
\<close>

record alert_rec =
  alert_id :: real
  alert_type :: "string option"
  message :: "string option"
  time :: string

record snapshot =
  generation :: generation_rec
  storage :: storage_rec
  demand :: demand_rec
  systemMetrics :: systemMetrics_rec
  weather :: weather_rec
  alerts :: "alert_rec list"

definition initializeData :: snapshot where
  "initializeData =
    \<lparr> generation =
        \<lparr> solar = \<lparr> dcPower = 45.8, acPower = 43.2, solar_efficiency = 94.3,
                    solar_irradiance = 875, moduleTemp = 38.5 \<rparr>,
          wind = \<lparr> wind_power = 12.3, wind_windSpeed = 8.2, wind_efficiency = 89.1 \<rparr>,
          cbg = \<lparr> cbg_power = 18.5, status = ''operational'', cbg_efficiency = 91.7 \<rparr>,
          totalGeneration = 74.0 \<rparr>,
      storage =
        \<lparr> overallSOC = 67, totalCapacity = 150, chargePower = 8.5, dischargePower = 0,
          batteryPacks =
            [ \<lparr> pack_id = 1, soc = 72, soh = 96, temp = 24.5, pack_voltage = 48.2 \<rparr>,
              \<lparr> pack_id = 2, soc = 68, soh = 94, temp = 25.1, pack_voltage = 48.0 \<rparr>,
              \<lparr> pack_id = 3, soc = 65, soh = 97, temp = 23.8, pack_voltage = 47.9 \<rparr>,
              \<lparr> pack_id = 4, soc = 63, soh = 95, temp = 24.7, pack_voltage = 47.8 \<rparr> ] \<rparr>,
      demand =
        \<lparr> totalLoad = 65.5, criticalLoads = 28.2, flexibleLoads = 37.3,
          peakReduction = 23.4 \<rparr>,
      systemMetrics =
        \<lparr> overallEfficiency = 92.8, uptime = 99.7,
          powerQuality = \<lparr> voltage = 230.5, frequency = 50.02, thd = 1.8 \<rparr> \<rparr>,
      weather =
        \<lparr> temperature = 28.5, humidity = 65, windSpeed = 8.2, irradiance = 875,
          cloudCover = 15 \<rparr>,
      alerts =
        [ \<lparr> alert_id = 1, alert_type = Some ''info'',
            message = Some ''Battery Pack 4 SOC below 65%'', time = ''14:23'' \<rparr>,
          \<lparr> alert_id = 2, alert_type = Some ''warning'',
            message = Some ''Cloud cover increasing - generation may decrease'',
            time = ''14:18'' \<rparr> ] \<rparr>"

subsection \<open>The library functions the source calls\<close>

text \<open>\<open>Math.round\<close> rounds to the nearest integer, a tie towards plus infinity.\<close>

definition Math_round :: "real \<Rightarrow> int" where
  "Math_round x = \<lfloor>x + 1 / 2\<rfloor>"

definition Math_floor :: "real \<Rightarrow> int" where
  "Math_floor x = \<lfloor>x\<rfloor>"

text \<open>An array read \<open>xs[i]\<close>: \<open>undefined\<close> (here \<open>None\<close>) out of range.\<close>

definition js_index :: "'a list \<Rightarrow> int \<Rightarrow> 'a option" where
  "js_index xs i = (if 0 \<le> i \<and> i < int (length xs) then Some (xs ! nat i) else None)"

subsection \<open>What one call of \<open>simulateDataChanges\<close> reads from its environment\<close>

text \<open>
  Each call of \<open>Math.random()\<close> and each reading of the clock is an input of the step, named
  after the place that reads it. \<open>rnd_pack i\<close> holds the two draws \<open>forEach\<close> makes for the
  pack at index \<open>i\<close> (lines 256 and 257).
\<close>

record sim_env =
  rnd_irradiance :: real     \<comment> \<open>line 217\<close>
  rnd_windSpeed :: real      \<comment> \<open>line 223\<close>
  rnd_cbg :: real            \<comment> \<open>line 227\<close>
  hour :: int                \<comment> \<open>line 233, \<open>new Date().getHours()\<close>\<close>
  rnd_pack :: "nat \<Rightarrow> real \<times> real"
  rnd_temperature :: real    \<comment> \<open>line 262\<close>
  rnd_cloudCover :: real     \<comment> \<open>line 263\<close>
  rnd_efficiency :: real     \<comment> \<open>line 266\<close>
  rnd_alert :: real          \<comment> \<open>line 269\<close>
  now :: real                \<comment> \<open>line 280, \<open>Date.now()\<close>\<close>
  rnd_alertType :: real      \<comment> \<open>line 281\<close>
  rnd_message :: real        \<comment> \<open>line 282\<close>
  alertTime :: string        \<comment> \<open>line 283, \<open>toLocaleTimeString\<close>\<close>

subsection \<open>The simulation step (\<open>simulateDataChanges\<close>, lines 211-291)\<close>

text \<open>Line 224, the right-hand side: the wind power at a wind speed.\<close>

definition windPower :: "real \<Rightarrow> real" where
  "windPower s = of_int (Math_round ((s / 12) ^ 3 * 25 * 10)) / 10"

text \<open>Lines 241-252, battery management, at the power balance of this step.\<close>

definition batteryManagement :: "real \<Rightarrow> storage_rec \<Rightarrow> storage_rec" where
  "batteryManagement powerBalance st =
    (if powerBalance > 0 \<and> overallSOC st < 95 then
       st\<lparr> chargePower := min (powerBalance * 0.8) 15,
           dischargePower := 0,
           overallSOC := min 95 (overallSOC st + 0.1) \<rparr>
     else if powerBalance < 0 \<and> overallSOC st > 20 then
       st\<lparr> dischargePower := min \<bar>powerBalance\<bar> 20,
           chargePower := 0,
           overallSOC := max 20 (overallSOC st - 0.2) \<rparr>
     else st)"

text \<open>Lines 256-258, the body of \<open>forEach\<close> at one pack, with its two random draws.\<close>

definition updatePack :: "real \<Rightarrow> real \<times> real \<Rightarrow> pack_rec \<Rightarrow> pack_rec" where
  "updatePack overall r pack =
    (let soc' = max 20 (min 95 (overall + (fst r - 0.5) * 8));
         temp' = 24 + (snd r - 0.5) * 4
     in pack\<lparr> soc := soc', temp := temp', pack_voltage := 47.5 + (soc' / 100) * 1.5 \<rparr>)"

text \<open>Lines 255-259: \<open>forEach\<close> over the packs; \<open>i\<close> is the index of the first pack.\<close>

fun updatePacks :: "real \<Rightarrow> (nat \<Rightarrow> real \<times> real) \<Rightarrow> nat \<Rightarrow> pack_rec list \<Rightarrow> pack_rec list" where
  "updatePacks overall r i [] = []"
| "updatePacks overall r i (pack # packs) =
     updatePack overall (r i) pack # updatePacks overall r (Suc i) packs"

definition alertTypes :: "string list" where
  "alertTypes = [''info'', ''warning'', ''error'']"

definition messages :: "string list" where
  "messages =
    [ ''System optimization completed'',
      ''Peak demand period approaching'',
      ''Weather forecast updated'',
      ''Maintenance reminder: Monthly inspection due'',
      ''Load balancing adjustment made'' ]"

text \<open>Lines 279-284.\<close>

definition newAlert :: "sim_env \<Rightarrow> alert_rec" where
  "newAlert e =
    \<lparr> alert_id = now e,
      alert_type = js_index alertTypes (Math_floor (rnd_alertType e * real (length alertTypes))),
      message = js_index messages (Math_floor (rnd_message e * real (length messages))),
      time = alertTime e \<rparr>"

text \<open>
  Lines 269-290: with a draw below 0.1, \<open>unshift\<close> the new alert and \<open>pop\<close> once when more
  than five are held.
\<close>

definition spawnAlert :: "sim_env \<Rightarrow> alert_rec list \<Rightarrow> alert_rec list" where
  "spawnAlert e as =
    (if rnd_alert e < 0.1 then
       (let as' = newAlert e # as in if length as' > 5 then butlast as' else as')
     else as)"

definition simulateDataChanges :: "sim_env \<Rightarrow> snapshot \<Rightarrow> snapshot" where
  "simulateDataChanges e data =
    (let cloudFactor = (100 - cloudCover (weather data)) / 100;
         baseIrradiance = 850 + rnd_irradiance e * 100;
         irradiance' = real_of_int (Math_round (baseIrradiance * cloudFactor));
         dcPower' = real_of_int (Math_round ((irradiance' / 1000) * 52 * 10)) / 10;
         acPower' = real_of_int (Math_round (dcPower' * 0.94 * 10)) / 10;
         windSpeed' = max 0 (8.2 + (rnd_windSpeed e - 0.5) * 4);
         windPower' = windPower windSpeed';
         cbgPower' = 18.5 + (rnd_cbg e - 0.5) * 2;
         totalGeneration' = acPower' + windPower' + cbgPower';
         baseDemand = 65.5;
         hourlyFactor = 1 + 0.2 * sin ((real_of_int (hour e) - 6) * pi / 12);
         totalLoad' = real_of_int (Math_round (baseDemand * hourlyFactor * 10)) / 10;
         criticalLoads' = real_of_int (Math_round (totalLoad' * 0.43 * 10)) / 10;
         flexibleLoads' = real_of_int (Math_round (totalLoad' * 0.57 * 10)) / 10;
         powerBalance = totalGeneration' - totalLoad';
         storage' = batteryManagement powerBalance (storage data);
         packs' = updatePacks (overallSOC storage') (rnd_pack e) 0 (batteryPacks storage');
         temperature' = 28.5 + (rnd_temperature e - 0.5) * 6;
         cloudCover' =
           max 0 (min 100 (cloudCover (weather data) + (rnd_cloudCover e - 0.5) * 10));
         overallEfficiency' = 92.8 + (rnd_efficiency e - 0.5) * 2
     in data
        \<lparr> generation :=
            (generation data)
            \<lparr> solar := (solar (generation data))\<lparr> dcPower := dcPower', acPower := acPower' \<rparr>,
              wind := (wind (generation data))\<lparr> wind_power := windPower' \<rparr>,
              cbg := (cbg (generation data))\<lparr> cbg_power := cbgPower' \<rparr>,
              totalGeneration := totalGeneration' \<rparr>,
          storage := storage'\<lparr> batteryPacks := packs' \<rparr>,
          demand :=
            (demand data)
            \<lparr> totalLoad := totalLoad', criticalLoads := criticalLoads',
              flexibleLoads := flexibleLoads' \<rparr>,
          systemMetrics := (systemMetrics data)\<lparr> overallEfficiency := overallEfficiency' \<rparr>,
          weather :=
            (weather data)
            \<lparr> irradiance := irradiance', windSpeed := windSpeed',
              temperature := temperature', cloudCover := cloudCover' \<rparr>,
          alerts := spawnAlert e (alerts data) \<rparr>)"

text \<open>
  The states reachable from a snapshot by repeated steps: \<open>simulate es data\<close> runs one step
  for each environment of \<open>es\<close>, and \<open>es\<close> ranges over all lists of environments.
\<close>

fun simulate :: "sim_env list \<Rightarrow> snapshot \<Rightarrow> snapshot" where
  "simulate [] data = data"
| "simulate (e # es) data = simulate es (simulateDataChanges e data)"

text \<open>
  Two environments of a step, for running the model on concrete inputs. At six o'clock
  the demand is its base value 65.5. With every draw at 0.5 the generation is 63.9 and no
  alert is spawned; with the three generation draws at 0.99 it is 74.18, and the draw 0.05
  spawns an alert.
\<close>

definition deficit_tick :: sim_env where
  "deficit_tick =
    \<lparr> rnd_irradiance = 0.5, rnd_windSpeed = 0.5, rnd_cbg = 0.5, hour = 6,
      rnd_pack = (\<lambda>i. (0.5, 0.5)), rnd_temperature = 0.5, rnd_cloudCover = 0.5,
      rnd_efficiency = 0.5, rnd_alert = 0.5, now = 1700000000000, rnd_alertType = 0.5,
      rnd_message = 0.5, alertTime = ''06:00'' \<rparr>"

definition surplus_tick :: sim_env where
  "surplus_tick =
    \<lparr> rnd_irradiance = 0.99, rnd_windSpeed = 0.99, rnd_cbg = 0.99, hour = 6,
      rnd_pack = (\<lambda>i. (0.5, 0.5)), rnd_temperature = 0.5, rnd_cloudCover = 0.5,
      rnd_efficiency = 0.5, rnd_alert = 0.05, now = 1700000000000, rnd_alertType = 0.5,
      rnd_message = 0.5, alertTime = ''06:00'' \<rparr>"

text \<open>The initial snapshot with the battery at the upper bound, where a surplus is held.\<close>

definition full_battery :: snapshot where
  "full_battery = initializeData\<lparr> storage := (storage initializeData)\<lparr> overallSOC := 95 \<rparr> \<rparr>"

subsection \<open>The page: elements, text and faults\<close>

text \<open>
  A template literal is modelled by its parts: literal text, a number printed by
  \<open>toFixed(1)\<close>, and a number printed by the default conversion. The digits a number prints
  as are not computed.
\<close>

datatype part = Lit string | Fixed1 real | Num real

type_synonym template = "part list"

text \<open>
  An element holds the last value written to each property the source writes, and the
  children appended to it. Writing \<open>innerHTML\<close> removes the children.
\<close>

datatype element =
  Element (className: template) (textContent: template) (innerHTML: template) (style_width: template)
    (children: "element list")

fun set_className :: "template \<Rightarrow> element \<Rightarrow> element" where
  "set_className c (Element _ t h w ch) = Element c t h w ch"

fun set_textContent :: "template \<Rightarrow> element \<Rightarrow> element" where
  "set_textContent t (Element c _ h w ch) = Element c t h w ch"

fun set_innerHTML :: "template \<Rightarrow> element \<Rightarrow> element" where
  "set_innerHTML h (Element c t _ w ch) = Element c t h w []"

fun set_style_width :: "template \<Rightarrow> element \<Rightarrow> element" where
  "set_style_width w (Element c t h _ ch) = Element c t h w ch"

fun appendChild :: "element \<Rightarrow> element \<Rightarrow> element" where
  "appendChild (Element c t h w ch) child = Element c t h w (ch @ [child])"

text \<open>\<open>document.createElement('div')\<close>: a fresh element, not yet in the page.\<close>

definition createElement :: element where
  "createElement = Element [] [] [] [] []"

text \<open>
  The page answers \<open>getElementById\<close> and \<open>querySelector\<close>; \<open>None\<close> is the \<open>null\<close> both
  return when no element matches.
\<close>

datatype query = ById string | BySelector string

type_synonym page = "query \<Rightarrow> element option"

text \<open>Writing a property of \<open>null\<close> throws a \<open>TypeError\<close>.\<close>

datatype error = TypeError

text \<open>\<open>document.getElementById(i).textContent = t\<close>\<close>

definition setText :: "string \<Rightarrow> template \<Rightarrow> page \<Rightarrow> error + page" where
  "setText i t doc =
    (case doc (ById i) of
       None \<Rightarrow> Inl TypeError
     | Some el \<Rightarrow> Inr (doc(ById i \<mapsto> set_textContent t el)))"

text \<open>A run of such statements, in order; the first fault ends it.\<close>

fun setTexts :: "(string \<times> template) list \<Rightarrow> page \<Rightarrow> error + page" where
  "setTexts [] doc = Inr doc"
| "setTexts ((i, t) # ws) doc =
     (case setText i t doc of Inl err \<Rightarrow> Inl err | Inr doc' \<Rightarrow> setTexts ws doc')"

subsection \<open>The charts (\<open>createGaugeChart\<close>, \<open>createDemandChart\<close>, \<open>initializeCharts\<close>)\<close>

text \<open>
  Of a Chart.js object the model keeps what the source reads or writes later: a gauge's
  two-element \<open>datasets[0].data\<close>, and the colour and centre text it was built with; the
  line chart's labels and its two data series.
\<close>

record gauge =
  data0 :: real
  data1 :: real
  backgroundColor :: string
  centerText :: template

record lineChart =
  labels :: "string list"
  generationData :: "real list"
  demandData :: "real list"

record charts_rec =
  solarGauge :: "gauge option"
  windGauge :: "gauge option"
  cbgGauge :: "gauge option"
  batteryGauge :: "gauge option"
  demandChart :: "lineChart option"

record dashboard =
  charts :: charts_rec
  currentData :: snapshot
  document :: page

text \<open>Lines 107-156. The parameter \<open>label\<close> is not used by the source either.\<close>

definition createGaugeChart ::
    "page \<Rightarrow> string \<Rightarrow> real \<Rightarrow> real \<Rightarrow> string \<Rightarrow> string \<Rightarrow> string \<Rightarrow> gauge option" where
  "createGaugeChart doc canvasId val mx label unit color =
    (case doc (ById canvasId) of
       None \<Rightarrow> None
     | Some ctx \<Rightarrow>
         Some \<lparr> data0 = val, data1 = mx - val, backgroundColor = color,
                centerText = [Num val, Lit unit] \<rparr>)"

text \<open>Lines 158-202.\<close>

definition createDemandChart :: "page \<Rightarrow> lineChart option" where
  "createDemandChart doc =
    (case doc (ById ''demandChart'') of
       None \<Rightarrow> None
     | Some ctx \<Rightarrow>
         Some \<lparr> labels = [''14:00'', ''14:05'', ''14:10'', ''14:15'', ''14:20'', ''14:25''],
                generationData = [72.1, 73.5, 74.8, 74.2, 74.0, 74.3],
                demandData = [63.2, 64.8, 65.1, 65.5, 65.5, 65.2] \<rparr>)"

text \<open>Lines 86-105.\<close>

definition initializeCharts :: "dashboard \<Rightarrow> dashboard" where
  "initializeCharts d =
    (let data = currentData d; doc = document d
     in d\<lparr> charts :=
          \<lparr> solarGauge =
              createGaugeChart doc ''solarGauge'' (acPower (solar (generation data))) 60
                ''Solar Power'' ''kW'' ''#FFC185'',
            windGauge =
              createGaugeChart doc ''windGauge'' (wind_power (wind (generation data))) 25
                ''Wind Power'' ''kW'' ''#1FB8CD'',
            cbgGauge =
              createGaugeChart doc ''cbgGauge'' (cbg_power (cbg (generation data))) 30
                ''CBG Power'' ''kW'' ''#B4413C'',
            batteryGauge =
              createGaugeChart doc ''batteryGauge'' (overallSOC (storage data)) 100
                ''Battery SOC'' ''%'' ''#5D878F'',
            demandChart = createDemandChart doc \<rparr> \<rparr>)"

subsection \<open>The render step (\<open>updateDashboard\<close> and the methods it calls)\<close>

text \<open>What one render reads from its environment.\<close>

record render_env =
  rnd_storageUtilization :: real   \<comment> \<open>line 326, \<open>Math.random()\<close>\<close>
  currentTime :: string            \<comment> \<open>line 380, \<open>toLocaleTimeString\<close>\<close>

text \<open>
  One guarded gauge update of \<open>updateCharts\<close> (lines 354-358, and alike 360-376):
  inside \<open>if (gauge)\<close>, the two data slots are overwritten.
\<close>

definition updateGauge :: "real \<Rightarrow> real \<Rightarrow> gauge option \<Rightarrow> gauge option" where
  "updateGauge val mx g =
    (case g of None \<Rightarrow> None | Some c \<Rightarrow> Some (c\<lparr> data0 := val, data1 := mx - val \<rparr>))"

text \<open>
  Lines 379-393: inside \<open>if (demandChart)\<close>, \<open>push\<close> on the labels and on both series, then
  \<open>shift\<close> on all three when the labels are more than ten.
\<close>

definition updateDemandChart :: "string \<Rightarrow> real \<Rightarrow> real \<Rightarrow> lineChart option \<Rightarrow> lineChart option" where
  "updateDemandChart t gen dem c =
    (case c of
       None \<Rightarrow> None
     | Some ch \<Rightarrow>
         (let ch' = ch\<lparr> labels := labels ch @ [t],
                        generationData := generationData ch @ [gen],
                        demandData := demandData ch @ [dem] \<rparr>
          in Some (if length (labels ch') > 10
                   then ch'\<lparr> labels := tl (labels ch'),
                             generationData := tl (generationData ch'),
                             demandData := tl (demandData ch') \<rparr>
                   else ch')))"

text \<open>Lines 350-394.\<close>

definition updateCharts :: "render_env \<Rightarrow> dashboard \<Rightarrow> dashboard" where
  "updateCharts r d =
    (let data = currentData d; cs = charts d
     in d\<lparr> charts :=
          \<lparr> solarGauge = updateGauge (acPower (solar (generation data))) 60 (solarGauge cs),
            windGauge = updateGauge (wind_power (wind (generation data))) 25 (windGauge cs),
            cbgGauge = updateGauge (cbg_power (cbg (generation data))) 30 (cbgGauge cs),
            batteryGauge = updateGauge (overallSOC (storage data)) 100 (batteryGauge cs),
            demandChart =
              updateDemandChart (currentTime r) (totalGeneration (generation data))
                (totalLoad (demand data)) (demandChart cs) \<rparr> \<rparr>)"

text \<open>Lines 396-409.\<close>

definition updatePowerFlowDiagram :: "dashboard \<Rightarrow> error + dashboard" where
  "updatePowerFlowDiagram d =
    (let data = currentData d
     in map_sum id (\<lambda>doc. d\<lparr> document := doc \<rparr>)
          (setTexts
            [ (''solarNodeValue'', [Fixed1 (acPower (solar (generation data))), Lit ''kW'']),
              (''windNodeValue'', [Fixed1 (wind_power (wind (generation data))), Lit ''kW'']),
              (''cbgNodeValue'', [Fixed1 (cbg_power (cbg (generation data))), Lit ''kW'']),
              (''batteryNodeValue'',
                 [Num (real_of_int (Math_round (overallSOC (storage data)))), Lit ''% SOC'']),
              (''batteryPowerValue'',
                 (if chargePower (storage data) > 0
                  then [Lit ''+'', Fixed1 (chargePower (storage data)), Lit ''kW'']
                  else [Lit ''-'', Fixed1 (dischargePower (storage data)), Lit ''kW''])),
              (''criticalLoadValue'', [Fixed1 (criticalLoads (demand data)), Lit ''kW'']),
              (''flexibleLoadValue'', [Fixed1 (flexibleLoads (demand data)), Lit ''kW'']) ]
            (document d)))"

text \<open>A line break of a template literal and the indentation after it.\<close>

definition nl :: "nat \<Rightarrow> string" where
  "nl n = CHR 0x0A # replicate n (CHR '' '')"

text \<open>A string or \<open>undefined\<close> inside a template literal.\<close>

definition template_string :: "string option \<Rightarrow> string" where
  "template_string v = (case v of Some s \<Rightarrow> s | None \<Rightarrow> ''undefined'')"

text \<open>Lines 416-428: the element built for one pack.\<close>

definition packElement :: "pack_rec \<Rightarrow> element" where
  \<open>packElement pack =
    (let socClass = (if soc pack > 70 then ''high'' else if soc pack > 40 then ''medium'' else ''low'')
     in set_innerHTML
          [ Lit (nl 16 @ ''<div class="pack-id">Pack ''), Num (pack_id pack),
            Lit (''</div>'' @ nl 16 @ ''<div class="pack-soc ''), Lit socClass, Lit ''">'',
            Num (real_of_int (Math_round (soc pack))),
            Lit (''%</div>'' @ nl 16 @ ''<div class="pack-details">'' @ nl 20 @ ''<span>SoH: ''),
            Num (soh pack),
            Lit (''%</span>'' @ nl 20 @ ''<span>''), Fixed1 (temp pack),
            Lit ([CHR 0xB0] @ ''C</span>'' @ nl 16 @ ''</div>'' @ nl 12) ]
          (set_className [Lit ''pack-item''] createElement))\<close>

text \<open>Lines 411-432.\<close>

definition updateBatteryPacks :: "dashboard \<Rightarrow> error + dashboard" where
  "updateBatteryPacks d =
    (case document d (ById ''batteryPacksList'') of
       None \<Rightarrow> Inl TypeError
     | Some packsContainer \<Rightarrow>
         Inr (d\<lparr> document := (document d)(ById ''batteryPacksList'' \<mapsto>
                foldl appendChild (set_innerHTML [] packsContainer)
                  (map packElement (batteryPacks (storage (currentData d))))) \<rparr>))"

text \<open>Lines 439-445: the element built for one alert.\<close>

definition alertElement :: "alert_rec \<Rightarrow> element" where
  \<open>alertElement alert =
    set_innerHTML
      [ Lit (nl 16 @ ''<div style="font-weight: 500; margin-bottom: 4px;">''),
        Lit (template_string (message alert)),
        Lit (''</div>'' @ nl 16 @ ''<div style="font-size: 10px; opacity: 0.7;">''),
        Lit (time alert),
        Lit (''</div>'' @ nl 12) ]
      (set_className [Lit ''alert-item '', Lit (template_string (alert_type alert))] createElement)\<close>

text \<open>Lines 434-447.\<close>

definition updateAlerts :: "dashboard \<Rightarrow> error + dashboard" where
  "updateAlerts d =
    (case document d (ById ''alertsList'') of
       None \<Rightarrow> Inl TypeError
     | Some alertsList \<Rightarrow>
         Inr (d\<lparr> document := (document d)(ById ''alertsList'' \<mapsto>
                foldl appendChild (set_innerHTML [] alertsList)
                  (map alertElement (alerts (currentData d)))) \<rparr>))"

text \<open>
  Lines 452-453 and the template around them: \<open>(x / totalLoad) * 100\<close> as the page shows
  it. A division by zero gives JavaScript \<open>NaN\<close> or an infinity, printed by name.
\<close>

definition percentOf :: "real \<Rightarrow> real \<Rightarrow> template" where
  "percentOf x totalLoad' =
    [ if totalLoad' \<noteq> 0 then Num ((x / totalLoad') * 100)
      else if x = 0 then Lit ''NaN''
      else if x > 0 then Lit ''Infinity''
      else Lit ''-Infinity'',
      Lit ''%'' ]"

text \<open>\<open>document.querySelector(q).style.width = w\<close>\<close>

definition setWidth :: "string \<Rightarrow> template \<Rightarrow> page \<Rightarrow> error + page" where
  "setWidth q w doc =
    (case doc (BySelector q) of
       None \<Rightarrow> Inl TypeError
     | Some el \<Rightarrow> Inr (doc(BySelector q \<mapsto> set_style_width w el)))"

text \<open>Lines 449-457.\<close>

definition updateLoadBars :: "dashboard \<Rightarrow> error + dashboard" where
  "updateLoadBars d =
    (let data = currentData d; totalLoad' = totalLoad (demand data)
     in case setWidth ''.load-fill.critical'' (percentOf (criticalLoads (demand data)) totalLoad')
               (document d) of
          Inl err \<Rightarrow> Inl err
        | Inr doc \<Rightarrow>
            map_sum id (\<lambda>doc'. d\<lparr> document := doc' \<rparr>)
              (setWidth ''.load-fill.flexible'' (percentOf (flexibleLoads (demand data)) totalLoad')
                 doc))"

text \<open>Lines 297-332: the text fields written by \<open>updateDashboard\<close> itself, in order.\<close>

definition kpiTexts :: "render_env \<Rightarrow> snapshot \<Rightarrow> (string \<times> template) list" where
  "kpiTexts r data =
    [ (''totalGeneration'', [Fixed1 (totalGeneration (generation data)), Lit '' kW'']),
      (''solarDC'', [Fixed1 (dcPower (solar (generation data))), Lit '' kW'']),
      (''solarAC'', [Fixed1 (acPower (solar (generation data))), Lit '' kW'']),
      (''solarEfficiency'', [Fixed1 (solar_efficiency (solar (generation data))), Lit ''%'']),
      (''windPower'', [Fixed1 (wind_power (wind (generation data))), Lit '' kW'']),
      (''windSpeed'', [Fixed1 (windSpeed (weather data)), Lit '' m/s'']),
      (''windEfficiency'', [Fixed1 (wind_efficiency (wind (generation data))), Lit ''%'']),
      (''cbgPower'', [Fixed1 (cbg_power (cbg (generation data))), Lit '' kW'']),
      (''cbgEfficiency'', [Fixed1 (cbg_efficiency (cbg (generation data))), Lit ''%'']),
      (''overallSOC'', [Num (real_of_int (Math_round (overallSOC (storage data)))), Lit ''%'']),
      (''chargePower'', [Fixed1 (chargePower (storage data)), Lit '' kW'']),
      (''criticalLoads'', [Fixed1 (criticalLoads (demand data)), Lit '' kW'']),
      (''flexibleLoads'', [Fixed1 (flexibleLoads (demand data)), Lit '' kW'']),
      (''peakReduction'', [Fixed1 (peakReduction (demand data)), Lit ''%'']),
      (''temperature'', [Fixed1 (temperature (weather data)), Lit ([CHR 0xB0] @ ''C'')]),
      (''irradiance'', [Num (irradiance (weather data)), Lit ('' W/m'' @ [CHR 0xB2])]),
      (''weatherWindSpeed'', [Fixed1 (windSpeed (weather data)), Lit '' m/s'']),
      (''cloudCover'', [Num (real_of_int (Math_round (cloudCover (weather data)))), Lit ''%'']),
      (''overallEfficiency'', [Fixed1 (overallEfficiency (systemMetrics data)), Lit ''%'']),
      (''voltageValue'', [Fixed1 (voltage (powerQuality (systemMetrics data))), Lit ''V'']),
      (''thdValue'', [Fixed1 (thd (powerQuality (systemMetrics data))), Lit ''% THD'']),
      (''storageUtilization'',
         [Fixed1 (overallSOC (storage data) * 0.87 + rnd_storageUtilization r * 10), Lit ''%'']),
      (''footerUptime'', [Fixed1 (uptime (systemMetrics data)), Lit ''%'']),
      (''footerPeakReduction'', [Fixed1 (peakReduction (demand data)), Lit ''%'']),
      (''energyBalance'',
         [Fixed1 (totalGeneration (generation data) - totalLoad (demand data)), Lit '' kW'']),
      (''efficiencyGain'',
         [Lit ''+'', Fixed1 (overallEfficiency (systemMetrics data) - 75.6), Lit ''%'']) ]"

text \<open>
  Lines 293-348. A fault ends the render where it happens; what the render had written
  before stays in the browser and is not returned by the model.
\<close>

definition updateDashboard :: "render_env \<Rightarrow> dashboard \<Rightarrow> error + dashboard" where
  "updateDashboard r d =
    (case setTexts (kpiTexts r (currentData d)) (document d) of
       Inl err \<Rightarrow> Inl err
     | Inr doc \<Rightarrow>
         (case updatePowerFlowDiagram (updateCharts r (d\<lparr> document := doc \<rparr>)) of
            Inl err \<Rightarrow> Inl err
          | Inr d1 \<Rightarrow>
              (case updateBatteryPacks d1 of
                 Inl err \<Rightarrow> Inl err
               | Inr d2 \<Rightarrow>
                   (case updateAlerts d2 of
                      Inl err \<Rightarrow> Inl err
                    | Inr d3 \<Rightarrow> updateLoadBars d3))))"

text \<open>
  The chart states reachable by repeated render steps: one call of \<open>updateCharts\<close> for each
  pair of a render environment and the snapshot current at that render.
\<close>

fun renders :: "(render_env \<times> snapshot) list \<Rightarrow> dashboard \<Rightarrow> dashboard" where
  "renders [] d = d"
| "renders ((r, data) # rs) d = renders rs (updateCharts r (d\<lparr> currentData := data \<rparr>))"

subsection \<open>JavaScript objects and the spread of \<open>updateFromServer\<close>\<close>

text \<open>
  The record passed to \<open>updateFromServer\<close> is any JavaScript object, so it is modelled
  as a tree of values and not as a \<open>snapshot\<close>: a key may be missing at any depth, and
  a value may be of any kind that data has (\<open>undefined\<close>, \<open>null\<close>, a boolean, a number, a
  string, an array, an object). An object is a finite map from its own keys to their
  values.
\<close>

datatype jsval =
  JUndefined
| JNull
| JBool bool
| JNum real
| JStr string
| JArr "jsval list"
| JObj "(string, jsval) fmap"

type_synonym object = "(string, jsval) fmap"

text \<open>The property read \<open>obj.k\<close> on an object: \<open>undefined\<close> when \<open>k\<close> is not a key.\<close>

definition field :: "object \<Rightarrow> string \<Rightarrow> jsval" where
  "field obj k = (case fmlookup obj k of Some v \<Rightarrow> v | None \<Rightarrow> JUndefined)"

text \<open>
  The object literal \<open>{ ...a, ...b }\<close>: the keys of \<open>a\<close> and of \<open>b\<close>, with the value of
  \<open>b\<close> where both have the key.
\<close>

definition spread :: "object \<Rightarrow> object \<Rightarrow> object" where
  "spread a b = a ++\<^sub>f b"

text \<open>The snapshot as the object the source builds (the literal of lines 22-63).\<close>

definition js_string :: "string option \<Rightarrow> jsval" where
  "js_string v = (case v of Some s \<Rightarrow> JStr s | None \<Rightarrow> JUndefined)"

definition pack_object :: "pack_rec \<Rightarrow> jsval" where
  "pack_object p =
    JObj (fmap_of_list
      [ (''id'', JNum (pack_id p)), (''soc'', JNum (soc p)), (''soh'', JNum (soh p)),
        (''temp'', JNum (temp p)), (''voltage'', JNum (pack_voltage p)) ])"

definition alert_object :: "alert_rec \<Rightarrow> jsval" where
  "alert_object a =
    JObj (fmap_of_list
      [ (''id'', JNum (alert_id a)), (''type'', js_string (alert_type a)),
        (''message'', js_string (message a)), (''time'', JStr (time a)) ])"

definition generation_object :: "generation_rec \<Rightarrow> jsval" where
  "generation_object g =
    JObj (fmap_of_list
      [ (''solar'', JObj (fmap_of_list
          [ (''dcPower'', JNum (dcPower (solar g))), (''acPower'', JNum (acPower (solar g))),
            (''efficiency'', JNum (solar_efficiency (solar g))),
            (''irradiance'', JNum (solar_irradiance (solar g))),
            (''moduleTemp'', JNum (moduleTemp (solar g))) ])),
        (''wind'', JObj (fmap_of_list
          [ (''power'', JNum (wind_power (wind g))),
            (''windSpeed'', JNum (wind_windSpeed (wind g))),
            (''efficiency'', JNum (wind_efficiency (wind g))) ])),
        (''cbg'', JObj (fmap_of_list
          [ (''power'', JNum (cbg_power (cbg g))), (''status'', JStr (status (cbg g))),
            (''efficiency'', JNum (cbg_efficiency (cbg g))) ])),
        (''totalGeneration'', JNum (totalGeneration g)) ])"

definition storage_object :: "storage_rec \<Rightarrow> jsval" where
  "storage_object st =
    JObj (fmap_of_list
      [ (''overallSOC'', JNum (overallSOC st)), (''totalCapacity'', JNum (totalCapacity st)),
        (''chargePower'', JNum (chargePower st)),
        (''dischargePower'', JNum (dischargePower st)),
        (''batteryPacks'', JArr (map pack_object (batteryPacks st))) ])"

definition demand_object :: "demand_rec \<Rightarrow> jsval" where
  "demand_object dm =
    JObj (fmap_of_list
      [ (''totalLoad'', JNum (totalLoad dm)), (''criticalLoads'', JNum (criticalLoads dm)),
        (''flexibleLoads'', JNum (flexibleLoads dm)),
        (''peakReduction'', JNum (peakReduction dm)) ])"

definition systemMetrics_object :: "systemMetrics_rec \<Rightarrow> jsval" where
  "systemMetrics_object m =
    JObj (fmap_of_list
      [ (''overallEfficiency'', JNum (overallEfficiency m)), (''uptime'', JNum (uptime m)),
        (''powerQuality'', JObj (fmap_of_list
          [ (''voltage'', JNum (voltage (powerQuality m))),
            (''frequency'', JNum (frequency (powerQuality m))),
            (''thd'', JNum (thd (powerQuality m))) ])) ])"

definition weather_object :: "weather_rec \<Rightarrow> jsval" where
  "weather_object w =
    JObj (fmap_of_list
      [ (''temperature'', JNum (temperature w)), (''humidity'', JNum (humidity w)),
        (''windSpeed'', JNum (windSpeed w)), (''irradiance'', JNum (irradiance w)),
        (''cloudCover'', JNum (cloudCover w)) ])"

definition snapshot_object :: "snapshot \<Rightarrow> object" where
  "snapshot_object data =
    fmap_of_list
      [ (''generation'', generation_object (generation data)),
        (''storage'', storage_object (storage data)),
        (''demand'', demand_object (demand data)),
        (''systemMetrics'', systemMetrics_object (systemMetrics data)),
        (''weather'', weather_object (weather data)),
        (''alerts'', JArr (map alert_object (alerts data))) ]"

text \<open>
  Reading an object back as a snapshot: \<open>Some\<close> when every field of the layout is there
  with a value of its kind (other keys are ignored), \<open>None\<close> otherwise.
\<close>

definition num :: "jsval \<Rightarrow> real option" where
  "num v = (case v of JNum x \<Rightarrow> Some x | _ \<Rightarrow> None)"

definition str :: "jsval \<Rightarrow> string option" where
  "str v = (case v of JStr x \<Rightarrow> Some x | _ \<Rightarrow> None)"

definition str_or_undefined :: "jsval \<Rightarrow> string option option" where
  "str_or_undefined v = (case v of JStr x \<Rightarrow> Some (Some x) | JUndefined \<Rightarrow> Some None | _ \<Rightarrow> None)"

definition obj :: "jsval \<Rightarrow> object option" where
  "obj v = (case v of JObj x \<Rightarrow> Some x | _ \<Rightarrow> None)"

definition arr :: "jsval \<Rightarrow> jsval list option" where
  "arr v = (case v of JArr x \<Rightarrow> Some x | _ \<Rightarrow> None)"

definition object_pack :: "jsval \<Rightarrow> pack_rec option" where
  "object_pack v = do {
     p \<leftarrow> obj v;
     a \<leftarrow> num (field p ''id'');
     b \<leftarrow> num (field p ''soc'');
     c \<leftarrow> num (field p ''soh'');
     d \<leftarrow> num (field p ''temp'');
     e \<leftarrow> num (field p ''voltage'');
     Some \<lparr> pack_id = a, soc = b, soh = c, temp = d, pack_voltage = e \<rparr> }"

definition object_alert :: "jsval \<Rightarrow> alert_rec option" where
  "object_alert v = do {
     p \<leftarrow> obj v;
     a \<leftarrow> num (field p ''id'');
     b \<leftarrow> str_or_undefined (field p ''type'');
     c \<leftarrow> str_or_undefined (field p ''message'');
     d \<leftarrow> str (field p ''time'');
     Some \<lparr> alert_id = a, alert_type = b, message = c, time = d \<rparr> }"

definition object_solar :: "jsval \<Rightarrow> solar_rec option" where
  "object_solar v = do {
     p \<leftarrow> obj v;
     a \<leftarrow> num (field p ''dcPower'');
     b \<leftarrow> num (field p ''acPower'');
     c \<leftarrow> num (field p ''efficiency'');
     d \<leftarrow> num (field p ''irradiance'');
     e \<leftarrow> num (field p ''moduleTemp'');
     Some \<lparr> dcPower = a, acPower = b, solar_efficiency = c, solar_irradiance = d,
            moduleTemp = e \<rparr> }"

definition object_wind :: "jsval \<Rightarrow> wind_rec option" where
  "object_wind v = do {
     p \<leftarrow> obj v;
     a \<leftarrow> num (field p ''power'');
     b \<leftarrow> num (field p ''windSpeed'');
     c \<leftarrow> num (field p ''efficiency'');
     Some \<lparr> wind_power = a, wind_windSpeed = b, wind_efficiency = c \<rparr> }"

definition object_cbg :: "jsval \<Rightarrow> cbg_rec option" where
  "object_cbg v = do {
     p \<leftarrow> obj v;
     a \<leftarrow> num (field p ''power'');
     b \<leftarrow> str (field p ''status'');
     c \<leftarrow> num (field p ''efficiency'');
     Some \<lparr> cbg_power = a, status = b, cbg_efficiency = c \<rparr> }"

definition object_generation :: "jsval \<Rightarrow> generation_rec option" where
  "object_generation v = do {
     p \<leftarrow> obj v;
     a \<leftarrow> object_solar (field p ''solar'');
     b \<leftarrow> object_wind (field p ''wind'');
     c \<leftarrow> object_cbg (field p ''cbg'');
     d \<leftarrow> num (field p ''totalGeneration'');
     Some \<lparr> solar = a, wind = b, cbg = c, totalGeneration = d \<rparr> }"

definition object_storage :: "jsval \<Rightarrow> storage_rec option" where
  "object_storage v = do {
     p \<leftarrow> obj v;
     a \<leftarrow> num (field p ''overallSOC'');
     b \<leftarrow> num (field p ''totalCapacity'');
     c \<leftarrow> num (field p ''chargePower'');
     d \<leftarrow> num (field p ''dischargePower'');
     ps \<leftarrow> arr (field p ''batteryPacks'');
     e \<leftarrow> those (map object_pack ps);
     Some \<lparr> overallSOC = a, totalCapacity = b, chargePower = c, dischargePower = d,
            batteryPacks = e \<rparr> }"

definition object_demand :: "jsval \<Rightarrow> demand_rec option" where
  "object_demand v = do {
     p \<leftarrow> obj v;
     a \<leftarrow> num (field p ''totalLoad'');
     b \<leftarrow> num (field p ''criticalLoads'');
     c \<leftarrow> num (field p ''flexibleLoads'');
     d \<leftarrow> num (field p ''peakReduction'');
     Some \<lparr> totalLoad = a, criticalLoads = b, flexibleLoads = c, peakReduction = d \<rparr> }"

definition object_powerQuality :: "jsval \<Rightarrow> powerQuality_rec option" where
  "object_powerQuality v = do {
     p \<leftarrow> obj v;
     a \<leftarrow> num (field p ''voltage'');
     b \<leftarrow> num (field p ''frequency'');
     c \<leftarrow> num (field p ''thd'');
     Some \<lparr> voltage = a, frequency = b, thd = c \<rparr> }"

definition object_systemMetrics :: "jsval \<Rightarrow> systemMetrics_rec option" where
  "object_systemMetrics v = do {
     p \<leftarrow> obj v;
     a \<leftarrow> num (field p ''overallEfficiency'');
     b \<leftarrow> num (field p ''uptime'');
     c \<leftarrow> object_powerQuality (field p ''powerQuality'');
     Some \<lparr> overallEfficiency = a, uptime = b, powerQuality = c \<rparr> }"

definition object_weather :: "jsval \<Rightarrow> weather_rec option" where
  "object_weather v = do {
     p \<leftarrow> obj v;
     a \<leftarrow> num (field p ''temperature'');
     b \<leftarrow> num (field p ''humidity'');
     c \<leftarrow> num (field p ''windSpeed'');
     d \<leftarrow> num (field p ''irradiance'');
     e \<leftarrow> num (field p ''cloudCover'');
     Some \<lparr> temperature = a, humidity = b, windSpeed = c, irradiance = d, cloudCover = e \<rparr> }"

definition object_snapshot :: "object \<Rightarrow> snapshot option" where
  "object_snapshot p = do {
     a \<leftarrow> object_generation (field p ''generation'');
     b \<leftarrow> object_storage (field p ''storage'');
     c \<leftarrow> object_demand (field p ''demand'');
     d \<leftarrow> object_systemMetrics (field p ''systemMetrics'');
     e \<leftarrow> object_weather (field p ''weather'');
     as \<leftarrow> arr (field p ''alerts'');
     f \<leftarrow> those (map object_alert as);
     Some \<lparr> generation = a, storage = b, demand = c, systemMetrics = d, weather = e,
            alerts = f \<rparr> }"

subsection \<open>JavaScript numbers and the conversions the render applies\<close>

text \<open>
  \<open>updateFromServer\<close> renders whatever the merged object holds, so the render is
  modelled a second time, on any object, with the conversions JavaScript applies where a
  value is not of the expected kind. A number is then a real, \<open>NaN\<close> or an infinity
  (there is no negative zero).
\<close>

datatype jsnum = Fin real | NaN | PosInf | NegInf

fun js_neg :: "jsnum \<Rightarrow> jsnum" where
  "js_neg (Fin a) = Fin (- a)"
| "js_neg NaN = NaN"
| "js_neg PosInf = NegInf"
| "js_neg NegInf = PosInf"

fun js_add :: "jsnum \<Rightarrow> jsnum \<Rightarrow> jsnum" where
  "js_add (Fin a) (Fin b) = Fin (a + b)"
| "js_add NaN y = NaN"
| "js_add x NaN = NaN"
| "js_add PosInf NegInf = NaN"
| "js_add NegInf PosInf = NaN"
| "js_add PosInf y = PosInf"
| "js_add x PosInf = PosInf"
| "js_add NegInf y = NegInf"
| "js_add x NegInf = NegInf"

definition js_sub :: "jsnum \<Rightarrow> jsnum \<Rightarrow> jsnum" where
  "js_sub x y = js_add x (js_neg y)"

fun js_mul :: "jsnum \<Rightarrow> jsnum \<Rightarrow> jsnum" where
  "js_mul (Fin a) (Fin b) = Fin (a * b)"
| "js_mul NaN y = NaN"
| "js_mul x NaN = NaN"
| "js_mul (Fin a) y = (if a = 0 then NaN else if a > 0 then y else js_neg y)"
| "js_mul x (Fin b) = (if b = 0 then NaN else if b > 0 then x else js_neg x)"
| "js_mul PosInf y = y"
| "js_mul NegInf y = js_neg y"

fun js_div :: "jsnum \<Rightarrow> jsnum \<Rightarrow> jsnum" where
  "js_div (Fin a) (Fin b) =
     (if b \<noteq> 0 then Fin (a / b)
      else if a = 0 then NaN else if a > 0 then PosInf else NegInf)"
| "js_div NaN y = NaN"
| "js_div x NaN = NaN"
| "js_div (Fin a) y = Fin 0"
| "js_div x (Fin b) = (if b \<ge> 0 then x else js_neg x)"
| "js_div x y = NaN"

text \<open>\<open>Math.round\<close> on such a number.\<close>

fun js_round :: "jsnum \<Rightarrow> jsnum" where
  "js_round (Fin a) = Fin (real_of_int (Math_round a))"
| "js_round x = x"

text \<open>\<open>x > b\<close> for a number \<open>x\<close> and a finite \<open>b\<close>: false on \<open>NaN\<close>.\<close>

fun js_greater :: "jsnum \<Rightarrow> real \<Rightarrow> bool" where
  "js_greater (Fin a) b = (a > b)"
| "js_greater PosInf b = True"
| "js_greater x b = False"

text \<open>A number inside a template literal, and a number printed by \<open>toFixed(1)\<close>.\<close>

fun numPart :: "jsnum \<Rightarrow> part" where
  "numPart (Fin a) = Num a"
| "numPart NaN = Lit ''NaN''"
| "numPart PosInf = Lit ''Infinity''"
| "numPart NegInf = Lit ''-Infinity''"

fun fixed1 :: "jsnum \<Rightarrow> part" where
  "fixed1 (Fin a) = Fixed1 a"
| "fixed1 NaN = Lit ''NaN''"
| "fixed1 PosInf = Lit ''Infinity''"
| "fixed1 NegInf = Lit ''-Infinity''"

text \<open>
  The number a string converts to (\<open>StringToNumber\<close> of the language): white space
  around it is dropped, the empty string is 0, then a binary, octal or hexadecimal integer
  with its prefix, or a signed decimal literal with an optional fraction and exponent, or
  a signed \<open>Infinity\<close>; anything else is \<open>NaN\<close>.
\<close>

definition StrWhiteSpaceChar :: "char \<Rightarrow> bool" where
  "StrWhiteSpaceChar c \<longleftrightarrow>
     c \<in> set [CHR 0x09, CHR 0x0A, CHR 0x0B, CHR 0x0C, CHR 0x0D, CHR 0x20, CHR 0xA0]"

definition trim :: "string \<Rightarrow> string" where
  "trim s = rev (dropWhile StrWhiteSpaceChar (rev (dropWhile StrWhiteSpaceChar s)))"

definition digit_value :: "char \<Rightarrow> nat option" where
  "digit_value c =
     map_of (zip ''0123456789abcdefABCDEF''
       [0, 1, 2, 3, 4, 5, 6, 7, 8, 9, 10, 11, 12, 13, 14, 15, 10, 11, 12, 13, 14, 15]) c"

definition is_digit :: "nat \<Rightarrow> char \<Rightarrow> bool" where
  "is_digit radix c = (case digit_value c of Some n \<Rightarrow> n < radix | None \<Rightarrow> False)"

definition digits_value :: "nat \<Rightarrow> string \<Rightarrow> nat" where
  "digits_value radix ds =
     foldl (\<lambda>a c. a * radix + (case digit_value c of Some n \<Rightarrow> n | None \<Rightarrow> 0)) 0 ds"

definition radix_literal :: "nat \<Rightarrow> string \<Rightarrow> jsnum" where
  "radix_literal radix ds =
     (if ds \<noteq> [] \<and> list_all (is_digit radix) ds then Fin (real (digits_value radix ds))
      else NaN)"

definition signed_integer :: "int \<Rightarrow> string \<Rightarrow> int option" where
  "signed_integer k ds =
     (if ds \<noteq> [] \<and> list_all (is_digit 10) ds then Some (k * int (digits_value 10 ds))
      else None)"

definition exponent_part :: "string \<Rightarrow> int option" where
  "exponent_part s =
     (case s of
        [] \<Rightarrow> Some 0
      | c # t \<Rightarrow>
          if c = CHR ''e'' \<or> c = CHR ''E'' then
            (case t of
               [] \<Rightarrow> None
             | sg # ds \<Rightarrow>
                 if sg = CHR ''+'' then signed_integer 1 ds
                 else if sg = CHR ''-'' then signed_integer (- 1) ds
                 else signed_integer 1 t)
          else None)"

definition unsigned_decimal :: "string \<Rightarrow> jsnum" where
  "unsigned_decimal u =
     (if u = ''Infinity'' then PosInf
      else
        (let ip = takeWhile (is_digit 10) u;
             r1 = dropWhile (is_digit 10) u;
             dot = (r1 \<noteq> [] \<and> hd r1 = CHR ''.'');
             fp = (if dot then takeWhile (is_digit 10) (tl r1) else []);
             r2 = (if dot then dropWhile (is_digit 10) (tl r1) else r1)
         in if ip = [] \<and> fp = [] then NaN
            else
              (case exponent_part r2 of
                 None \<Rightarrow> NaN
               | Some e \<Rightarrow>
                   Fin ((real (digits_value 10 ip)
                          + real (digits_value 10 fp) / 10 ^ length fp)
                        * (if e \<ge> 0 then 10 ^ nat e else 1 / 10 ^ nat (- e))))))"

definition StringToNumber :: "string \<Rightarrow> jsnum" where
  "StringToNumber s =
     (let t = trim s
      in if t = [] then Fin 0
         else if take 2 t = ''0x'' \<or> take 2 t = ''0X'' then radix_literal 16 (drop 2 t)
         else if take 2 t = ''0o'' \<or> take 2 t = ''0O'' then radix_literal 8 (drop 2 t)
         else if take 2 t = ''0b'' \<or> take 2 t = ''0B'' then radix_literal 2 (drop 2 t)
         else if hd t = CHR ''+'' then unsigned_decimal (tl t)
         else if hd t = CHR ''-'' then js_neg (unsigned_decimal (tl t))
         else unsigned_decimal t)"

text \<open>
  \<open>ToNumber\<close>. An array converts through its string: the empty array is 0, an array of
  one element is what the string of that element converts to (a number converts back to
  itself), and an array of more elements is \<open>NaN\<close>, since its string has a comma.
\<close>

fun ToNumber :: "jsval \<Rightarrow> jsnum" where
  "ToNumber JUndefined = NaN"
| "ToNumber JNull = Fin 0"
| "ToNumber (JBool b) = Fin (if b then 1 else 0)"
| "ToNumber (JNum x) = Fin x"
| "ToNumber (JStr s) = StringToNumber s"
| "ToNumber (JObj p) = NaN"
| "ToNumber (JArr []) = Fin 0"
| "ToNumber (JArr [JUndefined]) = Fin 0"
| "ToNumber (JArr [JNull]) = Fin 0"
| "ToNumber (JArr [JBool b]) = NaN"
| "ToNumber (JArr [JNum x]) = Fin x"
| "ToNumber (JArr [JStr s]) = StringToNumber s"
| "ToNumber (JArr [JObj p]) = NaN"
| "ToNumber (JArr [JArr xs]) = ToNumber (JArr xs)"
| "ToNumber (JArr (x # y # zs)) = NaN"

text \<open>
  A value inside a template literal (\<open>ToString\<close>), as parts. \<open>Array.prototype.join\<close>
  prints \<open>undefined\<close> and \<open>null\<close> as the empty string.
\<close>

fun join_parts :: "template list \<Rightarrow> template" where
  "join_parts [] = []"
| "join_parts [t] = t"
| "join_parts (t # u # ts) = t @ Lit '','' # join_parts (u # ts)"

fun template_value :: "jsval \<Rightarrow> template" where
  "template_value JUndefined = [Lit ''undefined'']"
| "template_value JNull = [Lit ''null'']"
| "template_value (JBool b) = [Lit (if b then ''true'' else ''false'')]"
| "template_value (JNum x) = [Num x]"
| "template_value (JStr s) = [Lit s]"
| "template_value (JObj p) = [Lit ''[object Object]'']"
| "template_value (JArr xs) =
     join_parts (map (\<lambda>x. if x = JUndefined \<or> x = JNull then [] else template_value x) xs)"

text \<open>
  The property read \<open>v.k\<close>: a \<open>TypeError\<close> on \<open>undefined\<close> and \<open>null\<close>, the field of an
  object, and \<open>undefined\<close> on a number, a string, a boolean or an array. The last holds for
  the keys the source reads, none of which is a property those values have of their own
  or inherit.
\<close>

definition read_prop :: "jsval \<Rightarrow> string \<Rightarrow> error + jsval" where
  "read_prop v k =
     (case v of
        JUndefined \<Rightarrow> Inl TypeError
      | JNull \<Rightarrow> Inl TypeError
      | JObj p \<Rightarrow> Inr (field p k)
      | _ \<Rightarrow> Inr JUndefined)"

text \<open>A chain of property reads \<open>v.k1.k2\<close>.\<close>

fun get_path :: "jsval \<Rightarrow> string list \<Rightarrow> error + jsval" where
  "get_path v [] = Inr v"
| "get_path v (k # ks) = (case read_prop v k of Inl err \<Rightarrow> Inl err | Inr v' \<Rightarrow> get_path v' ks)"

text \<open>Sequencing: a fault ends the evaluation.\<close>

definition and_then :: "error + 'a \<Rightarrow> ('a \<Rightarrow> error + 'b) \<Rightarrow> error + 'b" where
  "and_then x f = (case x of Inl err \<Rightarrow> Inl err | Inr a \<Rightarrow> f a)"

fun collect :: "(error + 'a) list \<Rightarrow> error + 'a list" where
  "collect [] = Inr []"
| "collect (x # xs) = and_then x (\<lambda>a. map_sum id (\<lambda>as. a # as) (collect xs))"

text \<open>
  The call \<open>v.toFixed(1)\<close>: only a number has the method; on any other value the call is a
  \<open>TypeError\<close>.
\<close>

definition toFixed1 :: "jsval \<Rightarrow> error + part" where
  "toFixed1 v = (case v of JNum x \<Rightarrow> Inr (Fixed1 x) | _ \<Rightarrow> Inl TypeError)"

definition fixedAt :: "jsval \<Rightarrow> string list \<Rightarrow> error + part" where
  "fixedAt v ks = and_then (get_path v ks) toFixed1"

text \<open>A value read along a path and converted to a number by an arithmetic operator.\<close>

definition numberAt :: "jsval \<Rightarrow> string list \<Rightarrow> error + jsnum" where
  "numberAt v ks = map_sum id ToNumber (get_path v ks)"

definition with_unit :: "string \<Rightarrow> error + part \<Rightarrow> error + template" where
  "with_unit u x = map_sum id (\<lambda>p. [p, Lit u]) x"

subsection \<open>The render step on any object\<close>

text \<open>
  The charts as the render on any object leaves them: a data slot holds the value
  assigned to it, whatever its kind.
\<close>

record js_gauge =
  js_data0 :: jsval
  js_data1 :: jsnum
  js_backgroundColor :: string
  js_centerText :: template

record js_lineChart =
  js_labels :: "string list"
  js_generationData :: "jsval list"
  js_demandData :: "jsval list"

record js_charts_rec =
  js_solarGauge :: "js_gauge option"
  js_windGauge :: "js_gauge option"
  js_cbgGauge :: "js_gauge option"
  js_batteryGauge :: "js_gauge option"
  js_demandChart :: "js_lineChart option"

record js_dashboard =
  js_charts :: js_charts_rec
  js_currentData :: object
  js_document :: page

text \<open>A statement \<open>document.getElementById(i).textContent = rhs\<close> whose right-hand side may fault, and a run of them.\<close>

fun setTexts_js :: "(string \<times> (error + template)) list \<Rightarrow> page \<Rightarrow> error + page" where
  "setTexts_js [] doc = Inr doc"
| "setTexts_js ((i, rhs) # ws) doc =
     and_then rhs (\<lambda>t. and_then (setText i t doc) (setTexts_js ws))"

text \<open>Lines 297-332, on any object.\<close>

definition kpiTexts_js :: "render_env \<Rightarrow> object \<Rightarrow> (string \<times> (error + template)) list" where
  "kpiTexts_js r data =
    (let v = JObj data
     in
      [ (''totalGeneration'', with_unit '' kW'' (fixedAt v [''generation'', ''totalGeneration''])),
        (''solarDC'', with_unit '' kW'' (fixedAt v [''generation'', ''solar'', ''dcPower''])),
        (''solarAC'', with_unit '' kW'' (fixedAt v [''generation'', ''solar'', ''acPower''])),
        (''solarEfficiency'',
           with_unit ''%'' (fixedAt v [''generation'', ''solar'', ''efficiency''])),
        (''windPower'', with_unit '' kW'' (fixedAt v [''generation'', ''wind'', ''power''])),
        (''windSpeed'', with_unit '' m/s'' (fixedAt v [''weather'', ''windSpeed''])),
        (''windEfficiency'',
           with_unit ''%'' (fixedAt v [''generation'', ''wind'', ''efficiency''])),
        (''cbgPower'', with_unit '' kW'' (fixedAt v [''generation'', ''cbg'', ''power''])),
        (''cbgEfficiency'', with_unit ''%'' (fixedAt v [''generation'', ''cbg'', ''efficiency''])),
        (''overallSOC'',
           with_unit ''%''
             (map_sum id (\<lambda>n. numPart (js_round n)) (numberAt v [''storage'', ''overallSOC'']))),
        (''chargePower'', with_unit '' kW'' (fixedAt v [''storage'', ''chargePower''])),
        (''criticalLoads'', with_unit '' kW'' (fixedAt v [''demand'', ''criticalLoads''])),
        (''flexibleLoads'', with_unit '' kW'' (fixedAt v [''demand'', ''flexibleLoads''])),
        (''peakReduction'', with_unit ''%'' (fixedAt v [''demand'', ''peakReduction''])),
        (''temperature'',
           with_unit ([CHR 0xB0] @ ''C'') (fixedAt v [''weather'', ''temperature''])),
        (''irradiance'',
           map_sum id (\<lambda>x. template_value x @ [Lit ('' W/m'' @ [CHR 0xB2])])
             (get_path v [''weather'', ''irradiance''])),
        (''weatherWindSpeed'', with_unit '' m/s'' (fixedAt v [''weather'', ''windSpeed''])),
        (''cloudCover'',
           with_unit ''%''
             (map_sum id (\<lambda>n. numPart (js_round n)) (numberAt v [''weather'', ''cloudCover'']))),
        (''overallEfficiency'',
           with_unit ''%'' (fixedAt v [''systemMetrics'', ''overallEfficiency''])),
        (''voltageValue'',
           with_unit ''V'' (fixedAt v [''systemMetrics'', ''powerQuality'', ''voltage''])),
        (''thdValue'',
           with_unit ''% THD'' (fixedAt v [''systemMetrics'', ''powerQuality'', ''thd''])),
        (''storageUtilization'',
           with_unit ''%''
             (map_sum id
                (\<lambda>n. fixed1 (js_add (js_mul n (Fin 0.87)) (Fin (rnd_storageUtilization r * 10))))
                (numberAt v [''storage'', ''overallSOC'']))),
        (''footerUptime'', with_unit ''%'' (fixedAt v [''systemMetrics'', ''uptime''])),
        (''footerPeakReduction'', with_unit ''%'' (fixedAt v [''demand'', ''peakReduction''])),
        (''energyBalance'',
           with_unit '' kW''
             (and_then (numberAt v [''generation'', ''totalGeneration''])
                (\<lambda>g. map_sum id (\<lambda>l. fixed1 (js_sub g l))
                       (numberAt v [''demand'', ''totalLoad''])))),
        (''efficiencyGain'',
           map_sum id (\<lambda>n. [Lit ''+'', fixed1 (js_sub n (Fin 75.6)), Lit ''%''])
             (numberAt v [''systemMetrics'', ''overallEfficiency''])) ])"

text \<open>
  One guarded gauge update (lines 354-376) on any value: inside \<open>if (gauge)\<close> the value is
  read and stored as it is, and the maximum minus the value is stored next to it.
\<close>

definition updateGauge_js :: "error + jsval \<Rightarrow> real \<Rightarrow> js_gauge option \<Rightarrow> error + js_gauge option" where
  "updateGauge_js val mx g =
    (case g of
       None \<Rightarrow> Inr None
     | Some c \<Rightarrow>
         and_then val
           (\<lambda>x. Inr (Some (c\<lparr> js_data0 := x, js_data1 := js_sub (Fin mx) (ToNumber x) \<rparr>))))"

text \<open>Lines 379-393 on any values.\<close>

definition updateDemandChart_js ::
    "string \<Rightarrow> error + jsval \<Rightarrow> error + jsval \<Rightarrow> js_lineChart option
      \<Rightarrow> error + js_lineChart option" where
  "updateDemandChart_js t gen dem c =
    (case c of
       None \<Rightarrow> Inr None
     | Some ch \<Rightarrow>
         and_then gen (\<lambda>g. and_then dem (\<lambda>l.
           (let ch' = ch\<lparr> js_labels := js_labels ch @ [t],
                          js_generationData := js_generationData ch @ [g],
                          js_demandData := js_demandData ch @ [l] \<rparr>
            in Inr (Some (if length (js_labels ch') > 10
                          then ch'\<lparr> js_labels := tl (js_labels ch'),
                                    js_generationData := tl (js_generationData ch'),
                                    js_demandData := tl (js_demandData ch') \<rparr>
                          else ch'))))))"

text \<open>Lines 350-394 on any object.\<close>

definition updateCharts_js :: "render_env \<Rightarrow> js_dashboard \<Rightarrow> error + js_dashboard" where
  "updateCharts_js r d =
    (let v = JObj (js_currentData d); cs = js_charts d
     in
      and_then (updateGauge_js (get_path v [''generation'', ''solar'', ''acPower'']) 60
                  (js_solarGauge cs)) (\<lambda>g1.
      and_then (updateGauge_js (get_path v [''generation'', ''wind'', ''power'']) 25
                  (js_windGauge cs)) (\<lambda>g2.
      and_then (updateGauge_js (get_path v [''generation'', ''cbg'', ''power'']) 30
                  (js_cbgGauge cs)) (\<lambda>g3.
      and_then (updateGauge_js (get_path v [''storage'', ''overallSOC'']) 100
                  (js_batteryGauge cs)) (\<lambda>g4.
      and_then (updateDemandChart_js (currentTime r)
                  (get_path v [''generation'', ''totalGeneration''])
                  (get_path v [''demand'', ''totalLoad'']) (js_demandChart cs)) (\<lambda>c.
        Inr (d\<lparr> js_charts :=
               \<lparr> js_solarGauge = g1, js_windGauge = g2, js_cbgGauge = g3,
                 js_batteryGauge = g4, js_demandChart = c \<rparr> \<rparr>)))))))"

text \<open>Lines 396-409 on any object.\<close>

definition updatePowerFlowDiagram_js :: "js_dashboard \<Rightarrow> error + js_dashboard" where
  "updatePowerFlowDiagram_js d =
    (let v = JObj (js_currentData d)
     in map_sum id (\<lambda>doc. d\<lparr> js_document := doc \<rparr>)
          (setTexts_js
            [ (''solarNodeValue'',
                 with_unit ''kW'' (fixedAt v [''generation'', ''solar'', ''acPower''])),
              (''windNodeValue'', with_unit ''kW'' (fixedAt v [''generation'', ''wind'', ''power''])),
              (''cbgNodeValue'', with_unit ''kW'' (fixedAt v [''generation'', ''cbg'', ''power''])),
              (''batteryNodeValue'',
                 with_unit ''% SOC''
                   (map_sum id (\<lambda>n. numPart (js_round n))
                      (numberAt v [''storage'', ''overallSOC'']))),
              (''batteryPowerValue'',
                 and_then (numberAt v [''storage'', ''chargePower''])
                   (\<lambda>c. if js_greater c 0
                        then map_sum id (\<lambda>p. [Lit ''+'', p, Lit ''kW''])
                               (fixedAt v [''storage'', ''chargePower''])
                        else map_sum id (\<lambda>p. [Lit ''-'', p, Lit ''kW''])
                               (fixedAt v [''storage'', ''dischargePower'']))),
              (''criticalLoadValue'',
                 with_unit ''kW'' (fixedAt v [''demand'', ''criticalLoads''])),
              (''flexibleLoadValue'',
                 with_unit ''kW'' (fixedAt v [''demand'', ''flexibleLoads''])) ]
            (js_document d)))"

text \<open>Lines 416-428 on any value: the element built for one entry of \<open>batteryPacks\<close>.\<close>

definition packElement_js :: "jsval \<Rightarrow> error + element" where
  \<open>packElement_js pack =
    and_then (read_prop pack ''soc'') (\<lambda>s.
    and_then (read_prop pack ''id'') (\<lambda>i.
    and_then (read_prop pack ''soh'') (\<lambda>h.
    and_then (fixedAt pack [''temp'']) (\<lambda>t.
      (let socClass =
             (if js_greater (ToNumber s) 70 then ''high''
              else if js_greater (ToNumber s) 40 then ''medium'' else ''low'')
       in Inr (set_innerHTML
            ([ Lit (nl 16 @ ''<div class="pack-id">Pack '') ] @ template_value i @
             [ Lit (''</div>'' @ nl 16 @ ''<div class="pack-soc ''), Lit socClass, Lit ''">'',
               numPart (js_round (ToNumber s)),
               Lit (''%</div>'' @ nl 16 @ ''<div class="pack-details">'' @ nl 20
                      @ ''<span>SoH: '') ] @
             template_value h @
             [ Lit (''%</span>'' @ nl 20 @ ''<span>''), t,
               Lit ([CHR 0xB0] @ ''C</span>'' @ nl 16 @ ''</div>'' @ nl 12) ])
            (set_className [Lit ''pack-item''] createElement)))))))\<close>

text \<open>
  Lines 411-432 on any object. \<open>forEach\<close> is a method of arrays only: on any other value
  the call is a \<open>TypeError\<close>.
\<close>

definition updateBatteryPacks_js :: "js_dashboard \<Rightarrow> error + js_dashboard" where
  "updateBatteryPacks_js d =
    (case js_document d (ById ''batteryPacksList'') of
       None \<Rightarrow> Inl TypeError
     | Some packsContainer \<Rightarrow>
         and_then (get_path (JObj (js_currentData d)) [''storage'', ''batteryPacks''])
           (\<lambda>packs. case packs of
              JArr xs \<Rightarrow>
                and_then (collect (map packElement_js xs))
                  (\<lambda>els. Inr (d\<lparr> js_document := (js_document d)(ById ''batteryPacksList'' \<mapsto>
                           foldl appendChild (set_innerHTML [] packsContainer) els) \<rparr>))
            | _ \<Rightarrow> Inl TypeError))"

text \<open>Lines 439-445 on any value: the element built for one entry of \<open>alerts\<close>.\<close>

definition alertElement_js :: "jsval \<Rightarrow> error + element" where
  \<open>alertElement_js alert =
    and_then (read_prop alert ''type'') (\<lambda>ty.
    and_then (read_prop alert ''message'') (\<lambda>m.
    and_then (read_prop alert ''time'') (\<lambda>t.
      Inr (set_innerHTML
        ([ Lit (nl 16 @ ''<div style="font-weight: 500; margin-bottom: 4px;">'') ] @
         template_value m @
         [ Lit (''</div>'' @ nl 16 @ ''<div style="font-size: 10px; opacity: 0.7;">'') ] @
         template_value t @
         [ Lit (''</div>'' @ nl 12) ])
        (set_className (Lit ''alert-item '' # template_value ty) createElement)))))\<close>

text \<open>Lines 434-447 on any object.\<close>

definition updateAlerts_js :: "js_dashboard \<Rightarrow> error + js_dashboard" where
  "updateAlerts_js d =
    (case js_document d (ById ''alertsList'') of
       None \<Rightarrow> Inl TypeError
     | Some alertsList \<Rightarrow>
         and_then (read_prop (JObj (js_currentData d)) ''alerts'')
           (\<lambda>as. case as of
              JArr xs \<Rightarrow>
                and_then (collect (map alertElement_js xs))
                  (\<lambda>els. Inr (d\<lparr> js_document := (js_document d)(ById ''alertsList'' \<mapsto>
                           foldl appendChild (set_innerHTML [] alertsList) els) \<rparr>))
            | _ \<Rightarrow> Inl TypeError))"

text \<open>Lines 449-457 on any object.\<close>

definition updateLoadBars_js :: "js_dashboard \<Rightarrow> error + js_dashboard" where
  "updateLoadBars_js d =
    (let v = JObj (js_currentData d)
     in
      and_then (numberAt v [''demand'', ''totalLoad'']) (\<lambda>totalLoad'.
      and_then (numberAt v [''demand'', ''criticalLoads'']) (\<lambda>critical.
      and_then (numberAt v [''demand'', ''flexibleLoads'']) (\<lambda>flexible.
      and_then (setWidth ''.load-fill.critical''
                  [numPart (js_mul (js_div critical totalLoad') (Fin 100)), Lit ''%'']
                  (js_document d)) (\<lambda>doc.
        map_sum id (\<lambda>doc'. d\<lparr> js_document := doc' \<rparr>)
          (setWidth ''.load-fill.flexible''
             [numPart (js_mul (js_div flexible totalLoad') (Fin 100)), Lit ''%''] doc))))))"

text \<open>Lines 293-348 on any object.\<close>

definition updateDashboard_js :: "render_env \<Rightarrow> js_dashboard \<Rightarrow> error + js_dashboard" where
  "updateDashboard_js r d =
    and_then (setTexts_js (kpiTexts_js r (js_currentData d)) (js_document d)) (\<lambda>doc.
    and_then (updateCharts_js r (d\<lparr> js_document := doc \<rparr>)) (\<lambda>d0.
    and_then (updatePowerFlowDiagram_js d0) (\<lambda>d1.
    and_then (updateBatteryPacks_js d1) (\<lambda>d2.
    and_then (updateAlerts_js d2) updateLoadBars_js))))"

text \<open>The charts and the dashboard of the typed model, seen as those of the render on any object.\<close>

definition gauge_js :: "gauge \<Rightarrow> js_gauge" where
  "gauge_js g =
    \<lparr> js_data0 = JNum (data0 g), js_data1 = Fin (data1 g),
      js_backgroundColor = backgroundColor g, js_centerText = centerText g \<rparr>"

definition lineChart_js :: "lineChart \<Rightarrow> js_lineChart" where
  "lineChart_js ch =
    \<lparr> js_labels = labels ch, js_generationData = map JNum (generationData ch),
      js_demandData = map JNum (demandData ch) \<rparr>"

definition charts_js :: "charts_rec \<Rightarrow> js_charts_rec" where
  "charts_js cs =
    \<lparr> js_solarGauge = map_option gauge_js (solarGauge cs),
      js_windGauge = map_option gauge_js (windGauge cs),
      js_cbgGauge = map_option gauge_js (cbgGauge cs),
      js_batteryGauge = map_option gauge_js (batteryGauge cs),
      js_demandChart = map_option lineChart_js (demandChart cs) \<rparr>"

definition dashboard_js :: "object \<Rightarrow> dashboard \<Rightarrow> js_dashboard" where
  "dashboard_js data d =
    \<lparr> js_charts = charts_js (charts d), js_currentData = data, js_document = document d \<rparr>"

subsection \<open>\<open>updateFromServer\<close> (lines 499-502)\<close>

text \<open>
  The first component is the object \<open>this.currentData\<close> holds after the assignment of line
  500; it holds it also when the render faults. The second is the outcome of the call of
  \<open>updateDashboard\<close> of line 501, made on that object whatever it holds.
\<close>

definition updateFromServer ::
    "render_env \<Rightarrow> dashboard \<Rightarrow> object \<Rightarrow> object \<times> (error + js_dashboard)" where
  "updateFromServer r d newData =
    (let merged = spread (snapshot_object (currentData d)) newData
     in (merged, updateDashboard_js r (dashboard_js merged d)))"

subsection \<open>Example pages and records\<close>

text \<open>
  A page where every query finds an element, and the same page without the four gauge
  canvases.
\<close>

definition full_page :: page where
  "full_page = (\<lambda>q. Some createElement)"

definition page_without_gauges :: page where
  "page_without_gauges =
    full_page(ById ''solarGauge'' := None, ById ''windGauge'' := None,
      ById ''cbgGauge'' := None, ById ''batteryGauge'' := None)"

text \<open>
  The fields of a new dashboard before \<open>initializeCharts\<close> runs (lines 4-10), and the
  dashboard after it (line 12).
\<close>

definition blank_dashboard :: "page \<Rightarrow> dashboard" where
  "blank_dashboard doc =
    \<lparr> charts = \<lparr> solarGauge = None, windGauge = None, cbgGauge = None, batteryGauge = None,
                 demandChart = None \<rparr>,
      currentData = initializeData, document = doc \<rparr>"

definition dashboard_on :: "page \<Rightarrow> dashboard" where
  "dashboard_on doc = initializeCharts (blank_dashboard doc)"

text \<open>The elements the charts are drawn on (lines 88-104 and 159).\<close>

definition canvas_ids :: "query set" where
  "canvas_ids =
    {ById ''solarGauge'', ById ''windGauge'', ById ''cbgGauge'', ById ''batteryGauge'',
     ById ''demandChart''}"

definition noon :: render_env where
  "noon = \<lparr> rnd_storageUtilization = 0.5, currentTime = ''12:00'' \<rparr>"



text \<open>A partial record that holds \<open>generation.solar\<close> and nothing else.\<close>

definition solar_only :: object where
  "solar_only =
    fmap_of_list
      [ (''generation'', JObj (fmap_of_list
          [ (''solar'', JObj (fmap_of_list
              [ (''dcPower'', JNum 50), (''acPower'', JNum 47), (''efficiency'', JNum 94),
                (''irradiance'', JNum 950), (''moduleTemp'', JNum 40) ])) ])) ]"

section \<open>Properties of the simulation step\<close>

subsection \<open>What a step does to the storage and to the alerts\<close>

lemma storage_simulateDataChanges:
  "storage (simulateDataChanges e data) =
     (batteryManagement
        (totalGeneration (generation (simulateDataChanges e data))
           - totalLoad (demand (simulateDataChanges e data)))
        (storage data))
     \<lparr> batteryPacks :=
         updatePacks
           (overallSOC (batteryManagement
              (totalGeneration (generation (simulateDataChanges e data))
                 - totalLoad (demand (simulateDataChanges e data)))
              (storage data)))
           (rnd_pack e) 0
           (batteryPacks (storage data)) \<rparr>"
  by (simp add: simulateDataChanges_def Let_def batteryManagement_def)

lemma alerts_simulateDataChanges:
  "alerts (simulateDataChanges e data) = spawnAlert e (alerts data)"
  by (simp add: simulateDataChanges_def Let_def)

subsection \<open>The two example steps, evaluated\<close>

lemmas sim_eval =
  simulateDataChanges_def Let_def initializeData_def Math_round_def Math_floor_def
  windPower_def batteryManagement_def updatePack_def spawnAlert_def newAlert_def js_index_def
  alertTypes_def messages_def power_divide deficit_tick_def surplus_tick_def

lemma deficit_tick_storage:
  "storage (simulateDataChanges deficit_tick initializeData) =
    \<lparr> overallSOC = 66.8, totalCapacity = 150, chargePower = 0, dischargePower = 1.6,
      batteryPacks =
        [ \<lparr> pack_id = 1, soc = 66.8, soh = 96, temp = 24, pack_voltage = 48.502 \<rparr>,
          \<lparr> pack_id = 2, soc = 66.8, soh = 94, temp = 24, pack_voltage = 48.502 \<rparr>,
          \<lparr> pack_id = 3, soc = 66.8, soh = 97, temp = 24, pack_voltage = 48.502 \<rparr>,
          \<lparr> pack_id = 4, soc = 66.8, soh = 95, temp = 24, pack_voltage = 48.502 \<rparr> ] \<rparr>"
  by (simp add: sim_eval)

lemma deficit_tick_totals:
  "totalGeneration (generation (simulateDataChanges deficit_tick initializeData)) = 63.9 \<and>
   totalLoad (demand (simulateDataChanges deficit_tick initializeData)) = 65.5"
  by (simp add: sim_eval)

lemma surplus_tick_storage:
  "storage (simulateDataChanges surplus_tick initializeData) =
    \<lparr> overallSOC = 67.1, totalCapacity = 150, chargePower = 6.944, dischargePower = 0,
      batteryPacks =
        [ \<lparr> pack_id = 1, soc = 67.1, soh = 96, temp = 24, pack_voltage = 48.5065 \<rparr>,
          \<lparr> pack_id = 2, soc = 67.1, soh = 94, temp = 24, pack_voltage = 48.5065 \<rparr>,
          \<lparr> pack_id = 3, soc = 67.1, soh = 97, temp = 24, pack_voltage = 48.5065 \<rparr>,
          \<lparr> pack_id = 4, soc = 67.1, soh = 95, temp = 24, pack_voltage = 48.5065 \<rparr> ] \<rparr>"
  by (simp add: sim_eval)

lemma surplus_tick_totals:
  "totalGeneration (generation (simulateDataChanges surplus_tick initializeData)) = 74.18 \<and>
   totalLoad (demand (simulateDataChanges surplus_tick initializeData)) = 65.5"
  by (simp add: sim_eval)

subsection \<open>The state of charge stays between 20 and 95\<close>

lemma batteryManagement_bounds:
  "20 \<le> overallSOC st \<Longrightarrow> overallSOC st \<le> 95 \<Longrightarrow>
   20 \<le> overallSOC (batteryManagement pb st) \<and> overallSOC (batteryManagement pb st) \<le> 95"
  by (simp add: batteryManagement_def)

lemma overallSOC_step_bounds:
  assumes "20 \<le> overallSOC (storage data)" "overallSOC (storage data) \<le> 95"
  shows "20 \<le> overallSOC (storage (simulateDataChanges e data)) \<and>
         overallSOC (storage (simulateDataChanges e data)) \<le> 95"
  using batteryManagement_bounds [OF assms]
  by (simp add: storage_simulateDataChanges)

lemma overallSOC_simulate_bounds:
  "20 \<le> overallSOC (storage data) \<Longrightarrow> overallSOC (storage data) \<le> 95 \<Longrightarrow>
   20 \<le> overallSOC (storage (simulate es data)) \<and> overallSOC (storage (simulate es data)) \<le> 95"
proof (induction es arbitrary: data)
  case Nil
  then show ?case by simp
next
  case (Cons e es)
  from overallSOC_step_bounds [OF Cons.prems, of e] show ?case
    by (simp add: Cons.IH)
qed

lemma updatePacks_soc_bounds:
  "p \<in> set (updatePacks overall r i packs) \<Longrightarrow> 20 \<le> soc p \<and> soc p \<le> 95"
  by (induction packs arbitrary: i) (auto simp: updatePack_def Let_def)

lemma initial_overallSOC: "overallSOC (storage initializeData) = 67"
  by (simp add: initializeData_def)

lemma packs_step_bounds:
  "\<forall>p \<in> set (batteryPacks (storage (simulateDataChanges e data))). 20 \<le> soc p \<and> soc p \<le> 95"
  by (auto simp: storage_simulateDataChanges dest: updatePacks_soc_bounds)

lemma packs_simulate_bounds:
  "\<forall>p \<in> set (batteryPacks (storage data)). 20 \<le> soc p \<and> soc p \<le> 95 \<Longrightarrow>
   \<forall>p \<in> set (batteryPacks (storage (simulate es data))). 20 \<le> soc p \<and> soc p \<le> 95"
proof (induction es arbitrary: data)
  case Nil
  then show ?case by simp
next
  case (Cons e es)
  from Cons.IH [OF packs_step_bounds [of e data]] show ?case by simp
qed

lemma initial_packs_bounds:
  "\<forall>p \<in> set (batteryPacks (storage initializeData)). 20 \<le> soc p \<and> soc p \<le> 95"
  by (simp add: initializeData_def)

text \<open>
  Claim C1. In every state reached from the initial snapshot by simulation steps,
  \<open>storage.overallSOC\<close> lies between 20 and 95, and so does the \<open>soc\<close> of every battery
  pack; and after a step, from any snapshot, the \<open>soc\<close> of every battery pack lies between
  20 and 95.
\<close>

theorem soc_within_bounds:
  "20 \<le> overallSOC (storage (simulate es initializeData)) \<and>
   overallSOC (storage (simulate es initializeData)) \<le> 95 \<and>
   (\<forall>p \<in> set (batteryPacks (storage (simulate es initializeData))).
      20 \<le> soc p \<and> soc p \<le> 95) \<and>
   (\<forall>p \<in> set (batteryPacks (storage (simulateDataChanges e data))).
      20 \<le> soc p \<and> soc p \<le> 95)"
proof -
  have "20 \<le> overallSOC (storage (simulate es initializeData)) \<and>
        overallSOC (storage (simulate es initializeData)) \<le> 95"
    by (rule overallSOC_simulate_bounds) (simp_all add: initial_overallSOC)
  with packs_simulate_bounds [OF initial_packs_bounds, of es] packs_step_bounds [of e data]
  show ?thesis by blast
qed

theorem soc_within_bounds_witness:
  "overallSOC (storage (simulate [deficit_tick] initializeData)) = 66.8 \<and>
   hd (batteryPacks (storage (simulateDataChanges deficit_tick initializeData)))
     \<in> set (batteryPacks (storage (simulateDataChanges deficit_tick initializeData))) \<and>
   20 \<le> soc (hd (batteryPacks (storage (simulateDataChanges deficit_tick initializeData)))) \<and>
   soc (hd (batteryPacks (storage (simulateDataChanges deficit_tick initializeData)))) \<le> 95 \<and>
   20 \<le> overallSOC (storage (simulate [deficit_tick] initializeData)) \<and>
   overallSOC (storage (simulate [deficit_tick] initializeData)) \<le> 95"
proof -
  have mem: "hd (batteryPacks (storage (simulateDataChanges deficit_tick initializeData)))
     \<in> set (batteryPacks (storage (simulateDataChanges deficit_tick initializeData)))"
    by (simp add: deficit_tick_storage)
  have val: "overallSOC (storage (simulate [deficit_tick] initializeData)) = 66.8"
    by (simp add: deficit_tick_storage)
  from soc_within_bounds [of "[deficit_tick]" deficit_tick initializeData] mem val
  show ?thesis by blast
qed

subsection \<open>The battery update\<close>

lemma surplus_tick_full_battery:
  "totalGeneration (generation (simulateDataChanges surplus_tick full_battery)) = 74.18 \<and>
   totalLoad (demand (simulateDataChanges surplus_tick full_battery)) = 65.5"
  by (simp add: sim_eval full_battery_def)

lemma full_battery_storage:
  "overallSOC (storage full_battery) = 95 \<and> chargePower (storage full_battery) = 8.5 \<and>
   dischargePower (storage full_battery) = 0"
  by (simp add: full_battery_def initializeData_def)

text \<open>
  Claim C2. With \<open>powerBalance\<close> the total generation minus the total load that the step
  has just computed: when it is positive and the state of charge is below 95, the step
  sets \<open>chargePower\<close> to \<open>min (0.8 * powerBalance) 15\<close>, \<open>dischargePower\<close> to 0 and raises
  \<open>overallSOC\<close> by 0.1, capped at 95; when it is negative and the state of charge is above
  20, the step sets \<open>dischargePower\<close> to \<open>min \<bar>powerBalance\<bar> 20\<close>, \<open>chargePower\<close> to 0 and
  lowers \<open>overallSOC\<close> by 0.2, floored at 20; otherwise the three fields keep their values.
  At generation 80 and demand 60 the charge power is 15 and the state of charge rises by
  0.1 (to at most 95); at generation 50 and demand 70 the discharge power is 20 and the
  state of charge falls by 0.2 (to at least 20).
\<close>

theorem battery_update:
  fixes e data
  defines "data' \<equiv> simulateDataChanges e data"
  defines "powerBalance \<equiv> totalGeneration (generation data') - totalLoad (demand data')"
  shows
  "(powerBalance > 0 \<and> overallSOC (storage data) < 95 \<longrightarrow>
      chargePower (storage data') = min (0.8 * powerBalance) 15 \<and>
      dischargePower (storage data') = 0 \<and>
      overallSOC (storage data') = min 95 (overallSOC (storage data) + 0.1)) \<and>
   (powerBalance < 0 \<and> overallSOC (storage data) > 20 \<longrightarrow>
      dischargePower (storage data') = min \<bar>powerBalance\<bar> 20 \<and>
      chargePower (storage data') = 0 \<and>
      overallSOC (storage data') = max 20 (overallSOC (storage data) - 0.2)) \<and>
   (\<not> (powerBalance > 0 \<and> overallSOC (storage data) < 95) \<and>
    \<not> (powerBalance < 0 \<and> overallSOC (storage data) > 20) \<longrightarrow>
      chargePower (storage data') = chargePower (storage data) \<and>
      dischargePower (storage data') = dischargePower (storage data) \<and>
      overallSOC (storage data') = overallSOC (storage data)) \<and>
   (overallSOC st < 95 \<longrightarrow>
      chargePower (batteryManagement (80 - 60) st) = 15 \<and>
      dischargePower (batteryManagement (80 - 60) st) = 0 \<and>
      overallSOC (batteryManagement (80 - 60) st) = min 95 (overallSOC st + 0.1) \<and>
      (overallSOC st \<le> 94.9 \<longrightarrow>
         overallSOC (batteryManagement (80 - 60) st) = overallSOC st + 0.1)) \<and>
   (overallSOC st > 20 \<longrightarrow>
      dischargePower (batteryManagement (50 - 70) st) = 20 \<and>
      chargePower (batteryManagement (50 - 70) st) = 0 \<and>
      overallSOC (batteryManagement (50 - 70) st) = max 20 (overallSOC st - 0.2) \<and>
      (overallSOC st \<ge> 20.2 \<longrightarrow>
         overallSOC (batteryManagement (50 - 70) st) = overallSOC st - 0.2))"
  unfolding powerBalance_def data'_def
  by (simp add: storage_simulateDataChanges batteryManagement_def mult.commute)

theorem battery_update_witness:
  "chargePower (storage (simulateDataChanges surplus_tick initializeData)) = min (0.8 * (74.18 - 65.5)) 15 \<and>
   dischargePower (storage (simulateDataChanges surplus_tick initializeData)) = 0 \<and>
   overallSOC (storage (simulateDataChanges surplus_tick initializeData)) = min 95 (67 + 0.1) \<and>
   dischargePower (storage (simulateDataChanges deficit_tick initializeData)) = min \<bar>63.9 - 65.5\<bar> 20 \<and>
   chargePower (storage (simulateDataChanges deficit_tick initializeData)) = 0 \<and>
   overallSOC (storage (simulateDataChanges deficit_tick initializeData)) = max 20 (67 - 0.2) \<and>
   chargePower (storage (simulateDataChanges surplus_tick full_battery)) = 8.5 \<and>
   dischargePower (storage (simulateDataChanges surplus_tick full_battery)) = 0 \<and>
   overallSOC (storage (simulateDataChanges surplus_tick full_battery)) = 95 \<and>
   chargePower (batteryManagement (80 - 60) (storage initializeData)) = 15 \<and>
   overallSOC (batteryManagement (80 - 60) (storage initializeData)) = 67 + 0.1 \<and>
   dischargePower (batteryManagement (50 - 70) (storage initializeData)) = 20 \<and>
   overallSOC (batteryManagement (50 - 70) (storage initializeData)) = 67 - 0.2"
  using battery_update [of surplus_tick initializeData "storage initializeData"]
    battery_update [of deficit_tick initializeData "storage initializeData"]
    battery_update [of surplus_tick full_battery "storage initializeData"]
  by (simp add: surplus_tick_totals deficit_tick_totals surplus_tick_full_battery
      full_battery_storage initial_overallSOC)

subsection \<open>The alerts\<close>

lemma spawnAlert_length: "length as \<le> 5 \<Longrightarrow> length (spawnAlert e as) \<le> 5"
  by (simp add: spawnAlert_def Let_def)

lemma spawnAlert_prepend:
  assumes "length as \<le> 5" "rnd_alert e < 0.1"
  shows "spawnAlert e as = newAlert e # take 4 as"
proof (cases "length as = 5")
  case True
  then have "as \<noteq> []" by auto
  then have "butlast (newAlert e # as) = newAlert e # butlast as" by simp
  moreover have "butlast as = take 4 as"
    using True by (simp add: butlast_conv_take)
  ultimately show ?thesis
    using assms True by (simp add: spawnAlert_def Let_def)
next
  case False
  with assms have "length as \<le> 4" by simp
  then show ?thesis
    using assms by (simp add: spawnAlert_def Let_def)
qed

lemma alerts_simulate_length:
  "length (alerts data) \<le> 5 \<Longrightarrow> length (alerts (simulate es data)) \<le> 5"
  by (induction es arbitrary: data) (simp_all add: alerts_simulateDataChanges spawnAlert_length)

lemma initial_alerts_length: "length (alerts initializeData) = 2"
  by (simp add: initializeData_def)

text \<open>
  Claim C3. In every state reached from the initial snapshot by simulation steps there
  are at most five alerts; and a step that spawns an alert (its draw is below 0.1) puts
  the new alert at index 0, followed by the alerts held before, in their order, of which
  only the first four stay: the oldest is dropped when five were held.
\<close>

theorem alerts_bounded_newest_first:
  "length (alerts (simulate es initializeData)) \<le> 5 \<and>
   (rnd_alert e < 0.1 \<longrightarrow>
      alerts (simulateDataChanges e (simulate es initializeData))
        = newAlert e # take 4 (alerts (simulate es initializeData)) \<and>
      alerts (simulateDataChanges e (simulate es initializeData)) ! 0 = newAlert e)"
proof -
  have len: "length (alerts (simulate es initializeData)) \<le> 5"
    by (rule alerts_simulate_length) (simp add: initial_alerts_length)
  show ?thesis
    using len by (simp add: alerts_simulateDataChanges spawnAlert_prepend)
qed

lemma surplus_tick_alert: "rnd_alert surplus_tick < 0.1"
  by (simp add: surplus_tick_def)

theorem alerts_bounded_newest_first_witness:
  "rnd_alert surplus_tick < 0.1 \<and>
   length (alerts (simulate [surplus_tick, surplus_tick, surplus_tick, surplus_tick] initializeData)) \<le> 5 \<and>
   alerts (simulateDataChanges surplus_tick
      (simulate [surplus_tick, surplus_tick, surplus_tick, surplus_tick] initializeData))
     = newAlert surplus_tick
       # take 4 (alerts (simulate [surplus_tick, surplus_tick, surplus_tick, surplus_tick] initializeData))"
  using alerts_bounded_newest_first
      [of "[surplus_tick, surplus_tick, surplus_tick, surplus_tick]" surplus_tick]
    surplus_tick_alert
  by blast

subsection \<open>Charging and discharging exclude each other\<close>

lemma batteryManagement_exclusive:
  "chargePower st = 0 \<or> dischargePower st = 0 \<Longrightarrow>
   chargePower (batteryManagement pb st) = 0 \<or> dischargePower (batteryManagement pb st) = 0"
  by (auto simp: batteryManagement_def)

lemma step_exclusive:
  "chargePower (storage data) = 0 \<or> dischargePower (storage data) = 0 \<Longrightarrow>
   chargePower (storage (simulateDataChanges e data)) = 0 \<or>
   dischargePower (storage (simulateDataChanges e data)) = 0"
  using batteryManagement_exclusive by (simp add: storage_simulateDataChanges)

lemma simulate_exclusive:
  "chargePower (storage data) = 0 \<or> dischargePower (storage data) = 0 \<Longrightarrow>
   chargePower (storage (simulate es data)) = 0 \<or> dischargePower (storage (simulate es data)) = 0"
proof (induction es arbitrary: data)
  case Nil
  then show ?case by simp
next
  case (Cons e es)
  from step_exclusive [OF Cons.prems, of e] show ?case
    by (simp add: Cons.IH)
qed

lemma initial_dischargePower: "dischargePower (storage initializeData) = 0"
  by (simp add: initializeData_def)

text \<open>
  Claim C8. The initial snapshot has \<open>dischargePower = 0\<close>, and in every state reached from
  it by simulation steps at most one of \<open>chargePower\<close> and \<open>dischargePower\<close> is not zero.
\<close>

theorem charge_discharge_exclusive:
  "dischargePower (storage initializeData) = 0 \<and>
   (chargePower (storage (simulate es initializeData)) = 0 \<or>
    dischargePower (storage (simulate es initializeData)) = 0)"
  using simulate_exclusive [of initializeData es] by (simp add: initial_dischargePower)

lemma surplus_tick_chargePower:
  "chargePower (storage (simulate [surplus_tick] initializeData)) = 6.944"
  by (simp add: surplus_tick_storage)

theorem charge_discharge_exclusive_witness:
  "chargePower (storage (simulate [surplus_tick] initializeData)) = 6.944 \<and>
   dischargePower (storage (simulate [surplus_tick] initializeData)) = 0"
proof -
  have "chargePower (storage (simulate [surplus_tick] initializeData)) \<noteq> 0"
    using surplus_tick_chargePower by simp
  with charge_discharge_exclusive [of "[surplus_tick]"] surplus_tick_chargePower
  show ?thesis by blast
qed

subsection \<open>The wind power grows with the wind speed\<close>

lemma Math_round_mono: "x \<le> y \<Longrightarrow> Math_round x \<le> Math_round y"
  by (simp add: Math_round_def floor_mono)

text \<open>
  Claim C6. The wind power the step computes is \<open>windPower\<close> of the wind speed it has just
  set, and \<open>windPower\<close> is monotonically non-decreasing on the wind speeds from 0 to 12.
\<close>

theorem windPower_mono:
  assumes "0 \<le> s1" "s1 \<le> s2" "s2 \<le> 12"
  shows "windPower s1 \<le> windPower s2 \<and>
         wind_power (wind (generation (simulateDataChanges e data)))
           = windPower (windSpeed (weather (simulateDataChanges e data)))"
proof -
  have "(s1 / 12) ^ 3 \<le> (s2 / 12) ^ 3"
    using assms by (intro power_mono) simp_all
  then have "(s1 / 12) ^ 3 * 25 * 10 \<le> (s2 / 12) ^ 3 * 25 * 10"
    by simp
  then have "Math_round ((s1 / 12) ^ 3 * 25 * 10) \<le> Math_round ((s2 / 12) ^ 3 * 25 * 10)"
    by (rule Math_round_mono)
  then have "windPower s1 \<le> windPower s2"
    by (simp add: windPower_def divide_right_mono)
  moreover have "wind_power (wind (generation (simulateDataChanges e data)))
           = windPower (windSpeed (weather (simulateDataChanges e data)))"
    by (simp add: simulateDataChanges_def Let_def)
  ultimately show ?thesis by simp
qed

lemma windPower_values: "windPower 8.2 = 8 \<and> windPower 10.16 = 15.2"
  by (simp add: windPower_def Math_round_def power_divide)

theorem windPower_mono_witness:
  "(0::real) \<le> 8.2 \<and> (8.2::real) \<le> 10.16 \<and> (10.16::real) \<le> 12 \<and>
   windPower 8.2 \<le> windPower 10.16 \<and> windPower 8.2 = 8 \<and> windPower 10.16 = 15.2"
proof -
  have h: "(0::real) \<le> 8.2" "(8.2::real) \<le> 10.16" "(10.16::real) \<le> 12" by simp_all
  from windPower_mono [OF h] windPower_values h show ?thesis by blast
qed

subsection \<open>The fields a step never writes\<close>

lemma updatePacks_soh: "map soh (updatePacks overall r i packs) = map soh packs"
  by (induction packs arbitrary: i) (simp_all add: updatePack_def Let_def)

lemma batteryManagement_packs: "batteryPacks (batteryManagement pb st) = batteryPacks st"
  by (simp add: batteryManagement_def)

lemma step_frame:
  "humidity (weather (simulateDataChanges e data)) = humidity (weather data) \<and>
   uptime (systemMetrics (simulateDataChanges e data)) = uptime (systemMetrics data) \<and>
   powerQuality (systemMetrics (simulateDataChanges e data)) = powerQuality (systemMetrics data) \<and>
   peakReduction (demand (simulateDataChanges e data)) = peakReduction (demand data) \<and>
   map soh (batteryPacks (storage (simulateDataChanges e data)))
     = map soh (batteryPacks (storage data)) \<and>
   solar_efficiency (solar (generation (simulateDataChanges e data)))
     = solar_efficiency (solar (generation data)) \<and>
   wind_efficiency (wind (generation (simulateDataChanges e data)))
     = wind_efficiency (wind (generation data)) \<and>
   cbg_efficiency (cbg (generation (simulateDataChanges e data)))
     = cbg_efficiency (cbg (generation data))"
  by (simp add: simulateDataChanges_def Let_def updatePacks_soh batteryManagement_packs)

lemma simulate_frame:
  "humidity (weather (simulate es data)) = humidity (weather data) \<and>
   uptime (systemMetrics (simulate es data)) = uptime (systemMetrics data) \<and>
   powerQuality (systemMetrics (simulate es data)) = powerQuality (systemMetrics data) \<and>
   peakReduction (demand (simulate es data)) = peakReduction (demand data) \<and>
   map soh (batteryPacks (storage (simulate es data))) = map soh (batteryPacks (storage data)) \<and>
   solar_efficiency (solar (generation (simulate es data)))
     = solar_efficiency (solar (generation data)) \<and>
   wind_efficiency (wind (generation (simulate es data)))
     = wind_efficiency (wind (generation data)) \<and>
   cbg_efficiency (cbg (generation (simulate es data)))
     = cbg_efficiency (cbg (generation data))"
proof (induction es arbitrary: data)
  case Nil
  show ?case by simp
next
  case (Cons e es)
  show ?case
    using Cons.IH [of "simulateDataChanges e data"] step_frame [of e data] by simp
qed

text \<open>
  Claim C10. After any number of simulation steps from the initial snapshot, the
  humidity, the uptime, the power quality (voltage, frequency, thd), the peak reduction,
  the state of health of every pack and the three efficiencies have their initial values.
\<close>

theorem step_never_writes:
  "humidity (weather (simulate es initializeData)) = 65 \<and>
   uptime (systemMetrics (simulate es initializeData)) = 99.7 \<and>
   powerQuality (systemMetrics (simulate es initializeData))
     = \<lparr> voltage = 230.5, frequency = 50.02, thd = 1.8 \<rparr> \<and>
   peakReduction (demand (simulate es initializeData)) = 23.4 \<and>
   map soh (batteryPacks (storage (simulate es initializeData))) = [96, 94, 97, 95] \<and>
   solar_efficiency (solar (generation (simulate es initializeData))) = 94.3 \<and>
   wind_efficiency (wind (generation (simulate es initializeData))) = 89.1 \<and>
   cbg_efficiency (cbg (generation (simulate es initializeData))) = 91.7"
  using simulate_frame [of es initializeData] by (simp add: initializeData_def)

theorem step_never_writes_witness:
  "humidity (weather (simulate [deficit_tick, surplus_tick] initializeData)) = 65 \<and>
   uptime (systemMetrics (simulate [deficit_tick, surplus_tick] initializeData)) = 99.7 \<and>
   peakReduction (demand (simulate [deficit_tick, surplus_tick] initializeData)) = 23.4 \<and>
   map soh (batteryPacks (storage (simulate [deficit_tick, surplus_tick] initializeData)))
     = [96, 94, 97, 95]"
  using step_never_writes [of "[deficit_tick, surplus_tick]"] by blast

section \<open>Properties of the render step\<close>

subsection \<open>Writing text: faults and successes\<close>

lemma setText_present:
  "setText i t doc = Inr doc' \<Longrightarrow> (doc' q = None) = (doc q = None)"
  by (auto simp: setText_def split: option.splits if_splits)

lemma setText_fault: "doc (ById i) = None \<Longrightarrow> setText i t doc = Inl TypeError"
  by (simp add: setText_def)

lemma setText_ok: "doc (ById i) \<noteq> None \<Longrightarrow> \<exists>doc'. setText i t doc = Inr doc'"
  by (auto simp: setText_def)

lemma error_is_TypeError: "(err :: error) = TypeError"
  by (cases err) simp

lemma setTexts_fault:
  "(i, t) \<in> set ws \<Longrightarrow> doc (ById i) = None \<Longrightarrow> setTexts ws doc = Inl TypeError"
proof (induction ws arbitrary: doc)
  case Nil
  then show ?case by simp
next
  case (Cons w ws)
  obtain j u where w: "w = (j, u)" by (cases w)
  show ?case
  proof (cases "setText j u doc")
    case (Inl err)
    then show ?thesis by (simp add: w error_is_TypeError)
  next
    case (Inr doc')
    with Cons.prems have "(i, t) \<in> set ws"
      by (auto simp: w setText_def)
    moreover from Inr Cons.prems(2) have "doc' (ById i) = None"
      by (simp add: setText_present)
    ultimately show ?thesis using Cons.IH Inr by (simp add: w)
  qed
qed

lemma setTexts_ok:
  "(\<forall>w \<in> set ws. doc (ById (fst w)) \<noteq> None) \<Longrightarrow>
   \<exists>doc'. setTexts ws doc = Inr doc' \<and> (\<forall>q. (doc' q = None) = (doc q = None))"
proof (induction ws arbitrary: doc)
  case Nil
  then show ?case by simp
next
  case (Cons w ws)
  obtain j u where w: "w = (j, u)" by (cases w)
  from Cons.prems have "doc (ById j) \<noteq> None" by (simp add: w)
  then obtain doc1 where d1: "setText j u doc = Inr doc1"
    using setText_ok by blast
  then have same: "\<forall>q. (doc1 q = None) = (doc q = None)"
    by (simp add: setText_present)
  with Cons.prems have "\<forall>w \<in> set ws. doc1 (ById (fst w)) \<noteq> None" by simp
  from Cons.IH [OF this] obtain doc' where
    "setTexts ws doc1 = Inr doc'" "\<forall>q. (doc' q = None) = (doc1 q = None)" by blast
  with same d1 show ?case by (simp add: w)
qed

lemma createGaugeChart_absent:
  "doc (ById canvasId) = None \<Longrightarrow> createGaugeChart doc canvasId val mx label unit color = None"
  by (simp add: createGaugeChart_def)

lemma updateCharts_absent:
  "(solarGauge (charts d) = None \<longrightarrow> solarGauge (charts (updateCharts r d)) = None) \<and>
   (windGauge (charts d) = None \<longrightarrow> windGauge (charts (updateCharts r d)) = None) \<and>
   (cbgGauge (charts d) = None \<longrightarrow> cbgGauge (charts (updateCharts r d)) = None) \<and>
   (batteryGauge (charts d) = None \<longrightarrow> batteryGauge (charts (updateCharts r d)) = None)"
  by (simp add: updateCharts_def Let_def updateGauge_def)

lemma updateCharts_document: "document (updateCharts r d) = document d"
  by (simp add: updateCharts_def Let_def)

lemma updateDashboard_kpi_fault:
  "(i, t) \<in> set (kpiTexts r (currentData d)) \<Longrightarrow> document d (ById i) = None \<Longrightarrow>
   updateDashboard r d = Inl TypeError"
  by (simp add: updateDashboard_def setTexts_fault)

lemma updateBatteryPacks_fault:
  "document d (ById ''batteryPacksList'') = None \<Longrightarrow> updateBatteryPacks d = Inl TypeError"
  by (simp add: updateBatteryPacks_def)

lemma updateAlerts_fault:
  "document d (ById ''alertsList'') = None \<Longrightarrow> updateAlerts d = Inl TypeError"
  by (simp add: updateAlerts_def)

lemma kpi_ids_not_canvases: "w \<in> set (kpiTexts r data) \<Longrightarrow> ById (fst w) \<notin> canvas_ids"
  by (auto simp: kpiTexts_def canvas_ids_def)

lemma updatePowerFlowDiagram_ok:
  assumes "\<forall>q. q \<notin> canvas_ids \<longrightarrow> document d q \<noteq> None"
  shows "\<exists>d'. updatePowerFlowDiagram d = Inr d' \<and> charts d' = charts d \<and>
           currentData d' = currentData d \<and> (\<forall>q. (document d' q = None) = (document d q = None))"
proof -
  let ?ws = "[ (''solarNodeValue'', [Fixed1 (acPower (solar (generation (currentData d)))), Lit ''kW'']),
              (''windNodeValue'', [Fixed1 (wind_power (wind (generation (currentData d)))), Lit ''kW'']),
              (''cbgNodeValue'', [Fixed1 (cbg_power (cbg (generation (currentData d)))), Lit ''kW'']),
              (''batteryNodeValue'',
                 [Num (real_of_int (Math_round (overallSOC (storage (currentData d))))), Lit ''% SOC'']),
              (''batteryPowerValue'',
                 (if chargePower (storage (currentData d)) > 0
                  then [Lit ''+'', Fixed1 (chargePower (storage (currentData d))), Lit ''kW'']
                  else [Lit ''-'', Fixed1 (dischargePower (storage (currentData d))), Lit ''kW''])),
              (''criticalLoadValue'', [Fixed1 (criticalLoads (demand (currentData d))), Lit ''kW'']),
              (''flexibleLoadValue'', [Fixed1 (flexibleLoads (demand (currentData d))), Lit ''kW'']) ]"
  have "\<forall>w \<in> set ?ws. document d (ById (fst w)) \<noteq> None"
    using assms by (auto simp: canvas_ids_def)
  from setTexts_ok [OF this] obtain doc' where
    "setTexts ?ws (document d) = Inr doc'" "\<forall>q. (doc' q = None) = (document d q = None)"
    by blast
  then show ?thesis by (simp add: updatePowerFlowDiagram_def Let_def)
qed

lemma updateBatteryPacks_ok:
  assumes "document d (ById ''batteryPacksList'') \<noteq> None"
  shows "\<exists>d'. updateBatteryPacks d = Inr d' \<and> charts d' = charts d \<and>
           currentData d' = currentData d \<and> (\<forall>q. (document d' q = None) = (document d q = None))"
  using assms by (auto simp: updateBatteryPacks_def)

lemma updateAlerts_ok:
  assumes "document d (ById ''alertsList'') \<noteq> None"
  shows "\<exists>d'. updateAlerts d = Inr d' \<and> charts d' = charts d \<and>
           currentData d' = currentData d \<and> (\<forall>q. (document d' q = None) = (document d q = None))"
  using assms by (auto simp: updateAlerts_def)

lemma updateLoadBars_ok:
  assumes "document d (BySelector ''.load-fill.critical'') \<noteq> None"
    and "document d (BySelector ''.load-fill.flexible'') \<noteq> None"
  shows "\<exists>d'. updateLoadBars d = Inr d' \<and> charts d' = charts d \<and>
           currentData d' = currentData d \<and> (\<forall>q. (document d' q = None) = (document d q = None))"
  using assms by (auto simp: updateLoadBars_def setWidth_def Let_def)

lemma updateDashboard_ok:
  assumes present: "\<forall>q. q \<notin> canvas_ids \<longrightarrow> document d q \<noteq> None"
  shows "\<exists>d'. updateDashboard r d = Inr d' \<and> charts d' = charts (updateCharts r d) \<and>
           currentData d' = currentData d"
proof -
  have "\<forall>w \<in> set (kpiTexts r (currentData d)). document d (ById (fst w)) \<noteq> None"
    using present kpi_ids_not_canvases by blast
  from setTexts_ok [OF this] obtain doc where
    doc: "setTexts (kpiTexts r (currentData d)) (document d) = Inr doc"
      "\<forall>q. (doc q = None) = (document d q = None)"
    by blast
  let ?d0 = "updateCharts r (d\<lparr> document := doc \<rparr>)"
  have d0: "\<forall>q. q \<notin> canvas_ids \<longrightarrow> document ?d0 q \<noteq> None"
    using present doc(2) by (simp add: updateCharts_document)
  have c0: "charts ?d0 = charts (updateCharts r d)" "currentData ?d0 = currentData d"
    by (simp_all add: updateCharts_def Let_def)
  from updatePowerFlowDiagram_ok [OF d0] obtain d1 where
    d1: "updatePowerFlowDiagram ?d0 = Inr d1" "charts d1 = charts ?d0"
      "currentData d1 = currentData ?d0" "\<forall>q. (document d1 q = None) = (document ?d0 q = None)"
    by blast
  have p1: "\<forall>q. q \<notin> canvas_ids \<longrightarrow> document d1 q \<noteq> None"
    using d0 d1(4) by simp
  then have "document d1 (ById ''batteryPacksList'') \<noteq> None"
    by (simp add: canvas_ids_def)
  from updateBatteryPacks_ok [OF this] obtain d2 where
    d2: "updateBatteryPacks d1 = Inr d2" "charts d2 = charts d1"
      "currentData d2 = currentData d1" "\<forall>q. (document d2 q = None) = (document d1 q = None)"
    by blast
  have p2: "\<forall>q. q \<notin> canvas_ids \<longrightarrow> document d2 q \<noteq> None"
    using p1 d2(4) by simp
  then have "document d2 (ById ''alertsList'') \<noteq> None"
    by (simp add: canvas_ids_def)
  from updateAlerts_ok [OF this] obtain d3 where
    d3: "updateAlerts d2 = Inr d3" "charts d3 = charts d2"
      "currentData d3 = currentData d2" "\<forall>q. (document d3 q = None) = (document d2 q = None)"
    by blast
  have p3: "\<forall>q. q \<notin> canvas_ids \<longrightarrow> document d3 q \<noteq> None"
    using p2 d3(4) by simp
  then have "document d3 (BySelector ''.load-fill.critical'') \<noteq> None"
    "document d3 (BySelector ''.load-fill.flexible'') \<noteq> None"
    by (simp_all add: canvas_ids_def)
  from updateLoadBars_ok [OF this] obtain d4 where
    d4: "updateLoadBars d3 = Inr d4" "charts d4 = charts d3" "currentData d4 = currentData d3"
    by blast
  show ?thesis
    using doc(1) d1 d2 d3 d4 c0 by (simp add: updateDashboard_def)
qed

lemma document_dashboard_on: "document (dashboard_on doc) = doc"
  by (simp add: dashboard_on_def blank_dashboard_def initializeCharts_def Let_def)

lemma currentData_dashboard_on: "currentData (dashboard_on doc) = initializeData"
  by (simp add: dashboard_on_def blank_dashboard_def initializeCharts_def Let_def)

subsection \<open>The window of the demand chart\<close>

lemma demandChart_updateCharts:
  "demandChart (charts (updateCharts r d)) =
     updateDemandChart (currentTime r) (totalGeneration (generation (currentData d)))
       (totalLoad (demand (currentData d))) (demandChart (charts d))"
  by (simp add: updateCharts_def Let_def)

lemma updateDemandChart_window:
  assumes "length (generationData ch) = length (labels ch)"
    and "length (demandData ch) = length (labels ch)"
    and "length (labels ch) \<le> 10"
  shows "\<exists>ch'. updateDemandChart t g l (Some ch) = Some ch' \<and>
           labels ch' = (if length (labels ch) < 10 then labels ch @ [t] else tl (labels ch) @ [t]) \<and>
           generationData ch' =
             (if length (labels ch) < 10 then generationData ch @ [g] else tl (generationData ch) @ [g]) \<and>
           demandData ch' =
             (if length (labels ch) < 10 then demandData ch @ [l] else tl (demandData ch) @ [l]) \<and>
           length (generationData ch') = length (labels ch') \<and>
           length (demandData ch') = length (labels ch') \<and>
           length (labels ch') \<le> 10"
proof (cases "length (labels ch) < 10")
  case True
  then show ?thesis using assms by (simp add: updateDemandChart_def Let_def)
next
  case False
  with assms have len: "length (labels ch) = 10" by simp
  then have "labels ch \<noteq> []" "generationData ch \<noteq> []" "demandData ch \<noteq> []"
    using assms by auto
  then show ?thesis using assms len by (simp add: updateDemandChart_def Let_def)
qed

lemma renders_window:
  assumes "demandChart (charts d) = Some ch"
    and "length (generationData ch) = length (labels ch)"
    and "length (demandData ch) = length (labels ch)"
    and "length (labels ch) \<le> 10"
  shows "\<exists>ch'. demandChart (charts (renders rs d)) = Some ch' \<and>
           length (generationData ch') = length (labels ch') \<and>
           length (demandData ch') = length (labels ch') \<and>
           length (labels ch') \<le> 10"
  using assms
proof (induction rs arbitrary: d ch)
  case Nil
  then show ?case by simp
next
  case (Cons x rs)
  obtain r data where x: "x = (r, data)" by (cases x)
  from updateDemandChart_window [OF Cons.prems(2-4),
      of "currentTime r" "totalGeneration (generation data)" "totalLoad (demand data)"]
  obtain ch1 where ch1: "updateDemandChart (currentTime r) (totalGeneration (generation data))
        (totalLoad (demand data)) (Some ch) = Some ch1"
      "length (generationData ch1) = length (labels ch1)"
      "length (demandData ch1) = length (labels ch1)" "length (labels ch1) \<le> 10"
    by blast
  have "demandChart (charts (updateCharts r (d\<lparr> currentData := data \<rparr>))) = Some ch1"
    using ch1(1) Cons.prems(1) by (simp add: demandChart_updateCharts)
  from Cons.IH [OF this ch1(2-4)] show ?case by (simp add: x)
qed

lemma initial_demandChart:
  "document d (ById ''demandChart'') = Some ctx \<Longrightarrow>
   demandChart (charts (initializeCharts d)) =
     Some \<lparr> labels = [''14:00'', ''14:05'', ''14:10'', ''14:15'', ''14:20'', ''14:25''],
            generationData = [72.1, 73.5, 74.8, 74.2, 74.0, 74.3],
            demandData = [63.2, 64.8, 65.1, 65.5, 65.5, 65.2] \<rparr>"
  by (simp add: initializeCharts_def Let_def createDemandChart_def)

text \<open>
  Claim C4. On a page that has the demand chart's element, after \<open>initializeCharts\<close> (six
  buffered points) and any number of render steps, the labels and the two data series of
  the chart have the same length, at most 10; and one more render appends one point to
  each of the three, after removing the first (oldest) element of each when ten were held.
\<close>

theorem chart_window:
  assumes "document d (ById ''demandChart'') = Some ctx"
  shows "\<exists>ch ch'.
     demandChart (charts (renders rs (initializeCharts d))) = Some ch \<and>
     length (generationData ch) = length (labels ch) \<and>
     length (demandData ch) = length (labels ch) \<and>
     length (labels ch) \<le> 10 \<and>
     demandChart (charts (updateCharts r (renders rs (initializeCharts d)))) = Some ch' \<and>
     labels ch' =
       (if length (labels ch) < 10 then labels ch @ [currentTime r]
        else tl (labels ch) @ [currentTime r]) \<and>
     generationData ch' =
       (if length (labels ch) < 10
        then generationData ch
               @ [totalGeneration (generation (currentData (renders rs (initializeCharts d))))]
        else tl (generationData ch)
               @ [totalGeneration (generation (currentData (renders rs (initializeCharts d))))]) \<and>
     demandData ch' =
       (if length (labels ch) < 10
        then demandData ch @ [totalLoad (demand (currentData (renders rs (initializeCharts d))))]
        else tl (demandData ch)
               @ [totalLoad (demand (currentData (renders rs (initializeCharts d))))])"
proof -
  let ?d = "renders rs (initializeCharts d)"
  from renders_window [OF initial_demandChart [OF assms], of rs]
  obtain ch where ch: "demandChart (charts ?d) = Some ch"
      "length (generationData ch) = length (labels ch)"
      "length (demandData ch) = length (labels ch)" "length (labels ch) \<le> 10"
    by auto
  from updateDemandChart_window [OF ch(2-4), of "currentTime r"
      "totalGeneration (generation (currentData ?d))" "totalLoad (demand (currentData ?d))"]
  obtain ch' where "updateDemandChart (currentTime r) (totalGeneration (generation (currentData ?d)))
        (totalLoad (demand (currentData ?d))) (Some ch) = Some ch'"
      "labels ch' = (if length (labels ch) < 10 then labels ch @ [currentTime r]
        else tl (labels ch) @ [currentTime r])"
      "generationData ch' =
       (if length (labels ch) < 10
        then generationData ch @ [totalGeneration (generation (currentData ?d))]
        else tl (generationData ch) @ [totalGeneration (generation (currentData ?d))])"
      "demandData ch' =
       (if length (labels ch) < 10
        then demandData ch @ [totalLoad (demand (currentData ?d))]
        else tl (demandData ch) @ [totalLoad (demand (currentData ?d))])"
    by blast
  then show ?thesis using ch by (simp add: demandChart_updateCharts)
qed

lemma four_renders:
  "demandChart (charts (renders [(noon, initializeData), (noon, initializeData),
       (noon, initializeData), (noon, initializeData)]
     (initializeCharts (blank_dashboard full_page)))) =
   Some \<lparr> labels = [''14:00'', ''14:05'', ''14:10'', ''14:15'', ''14:20'', ''14:25'',
              ''12:00'', ''12:00'', ''12:00'', ''12:00''],
          generationData = [72.1, 73.5, 74.8, 74.2, 74.0, 74.3, 74.0, 74.0, 74.0, 74.0],
          demandData = [63.2, 64.8, 65.1, 65.5, 65.5, 65.2, 65.5, 65.5, 65.5, 65.5] \<rparr>"
  by (simp add: demandChart_updateCharts updateDemandChart_def Let_def initializeCharts_def
      blank_dashboard_def full_page_def createDemandChart_def noon_def initializeData_def)

theorem chart_window_witness:
  "document (blank_dashboard full_page) (ById ''demandChart'') = Some createElement \<and>
   (\<exists>ch ch'.
      demandChart (charts (renders [(noon, initializeData), (noon, initializeData),
          (noon, initializeData), (noon, initializeData)]
        (initializeCharts (blank_dashboard full_page)))) = Some ch \<and>
      length (labels ch) = 10 \<and>
      demandChart (charts (updateCharts noon (renders [(noon, initializeData),
          (noon, initializeData), (noon, initializeData), (noon, initializeData)]
        (initializeCharts (blank_dashboard full_page))))) = Some ch' \<and>
      labels ch' = [''14:05'', ''14:10'', ''14:15'', ''14:20'', ''14:25'',
              ''12:00'', ''12:00'', ''12:00'', ''12:00'', ''12:00''])"
proof -
  let ?rs = "[(noon, initializeData), (noon, initializeData), (noon, initializeData),
    (noon, initializeData)]"
  have present: "document (blank_dashboard full_page) (ById ''demandChart'') = Some createElement"
    by (simp add: blank_dashboard_def full_page_def)
  from chart_window [OF present, of ?rs noon] obtain ch ch' where
    ch: "demandChart (charts (renders ?rs (initializeCharts (blank_dashboard full_page)))) = Some ch"
    and ch': "demandChart (charts (updateCharts noon
        (renders ?rs (initializeCharts (blank_dashboard full_page))))) = Some ch'"
    and lab: "labels ch' = (if length (labels ch) < 10 then labels ch @ [currentTime noon]
        else tl (labels ch) @ [currentTime noon])"
    by blast
  from ch four_renders have l: "labels ch = [''14:00'', ''14:05'', ''14:10'', ''14:15'', ''14:20'',
      ''14:25'', ''12:00'', ''12:00'', ''12:00'', ''12:00'']"
    by simp
  then have "length (labels ch) = 10" by simp
  moreover from lab l have "labels ch' = [''14:05'', ''14:10'', ''14:15'', ''14:20'', ''14:25'',
              ''12:00'', ''12:00'', ''12:00'', ''12:00'', ''12:00'']"
    by (simp add: noon_def)
  ultimately show ?thesis using present ch ch' by blast
qed

subsection \<open>Missing elements: guarded gauges, unguarded writers\<close>

text \<open>
  Claim C7. When the element of a gauge is absent, \<open>createGaugeChart\<close> returns \<open>null\<close>; an
  absent gauge is skipped by \<open>updateCharts\<close> and stays absent; a render on a page that
  lacks only chart elements does not fault. The text writers do not check: a render
  faults with a \<open>TypeError\<close> when the element of a text field is absent, and so do the
  battery pack list and the alert list writers when their list element is absent.
\<close>

theorem gauges_guarded_writers_not:
  "(doc (ById canvasId) = None \<longrightarrow>
      createGaugeChart doc canvasId val mx label unit color = None) \<and>
   (solarGauge (charts d) = None \<longrightarrow> solarGauge (charts (updateCharts r d)) = None) \<and>
   (windGauge (charts d) = None \<longrightarrow> windGauge (charts (updateCharts r d)) = None) \<and>
   (cbgGauge (charts d) = None \<longrightarrow> cbgGauge (charts (updateCharts r d)) = None) \<and>
   (batteryGauge (charts d) = None \<longrightarrow> batteryGauge (charts (updateCharts r d)) = None) \<and>
   ((\<forall>q. q \<notin> canvas_ids \<longrightarrow> document d q \<noteq> None) \<longrightarrow>
      (\<exists>d'. updateDashboard r d = Inr d')) \<and>
   (\<forall>w \<in> set (kpiTexts r (currentData d)).
      document d (ById (fst w)) = None \<longrightarrow> updateDashboard r d = Inl TypeError) \<and>
   (document d (ById ''batteryPacksList'') = None \<longrightarrow> updateBatteryPacks d = Inl TypeError) \<and>
   (document d (ById ''alertsList'') = None \<longrightarrow> updateAlerts d = Inl TypeError)"
proof -
  have kpi: "\<forall>w \<in> set (kpiTexts r (currentData d)).
      document d (ById (fst w)) = None \<longrightarrow> updateDashboard r d = Inl TypeError"
  proof (intro ballI impI)
    fix w
    assume "w \<in> set (kpiTexts r (currentData d))" "document d (ById (fst w)) = None"
    then show "updateDashboard r d = Inl TypeError"
      using updateDashboard_kpi_fault [of "fst w" "snd w" r d] by simp
  qed
  have ok: "(\<forall>q. q \<notin> canvas_ids \<longrightarrow> document d q \<noteq> None) \<longrightarrow>
      (\<exists>d'. updateDashboard r d = Inr d')"
    using updateDashboard_ok [of d r] by blast
  from kpi ok updateCharts_absent [of d r] show ?thesis
    by (simp add: createGaugeChart_absent updateBatteryPacks_fault updateAlerts_fault)
qed

lemma page_without_gauges_present: "\<forall>q. q \<notin> canvas_ids \<longrightarrow> page_without_gauges q \<noteq> None"
  by (simp add: page_without_gauges_def full_page_def canvas_ids_def)

lemma page_without_gauges_solar: "page_without_gauges (ById ''solarGauge'') = None"
  by (simp add: page_without_gauges_def)

lemma dashboard_on_solarGauge:
  "solarGauge (charts (dashboard_on doc)) =
     createGaugeChart doc ''solarGauge'' (acPower (solar (generation initializeData))) 60
       ''Solar Power'' ''kW'' ''#FFC185''"
  by (simp add: dashboard_on_def blank_dashboard_def initializeCharts_def Let_def)

lemma totalGeneration_is_kpi:
  "(''totalGeneration'', [Fixed1 (totalGeneration (generation data)), Lit '' kW''])
     \<in> set (kpiTexts r data)"
  by (simp add: kpiTexts_def)

theorem gauges_guarded_writers_not_witness:
  "page_without_gauges (ById ''solarGauge'') = None \<and>
   solarGauge (charts (dashboard_on page_without_gauges)) = None \<and>
   solarGauge (charts (updateCharts noon (dashboard_on page_without_gauges))) = None \<and>
   (\<exists>d'. updateDashboard noon (dashboard_on page_without_gauges) = Inr d') \<and>
   updateDashboard noon (dashboard_on (full_page(ById ''totalGeneration'' := None)))
     = Inl TypeError \<and>
   updateBatteryPacks (dashboard_on (full_page(ById ''batteryPacksList'' := None)))
     = Inl TypeError \<and>
   updateAlerts (dashboard_on (full_page(ById ''alertsList'' := None))) = Inl TypeError"
proof -
  let ?d = "dashboard_on page_without_gauges"
  note a = gauges_guarded_writers_not [of page_without_gauges "''solarGauge''"
      "acPower (solar (generation initializeData))" 60 "''Solar Power''" "''kW''" "''#FFC185''"
      ?d noon]
  note b = gauges_guarded_writers_not [of full_page "''solarGauge''" 0 0 "[]" "[]" "[]"
      "dashboard_on (full_page(ById ''totalGeneration'' := None))" noon]
  note c = gauges_guarded_writers_not [of full_page "''solarGauge''" 0 0 "[]" "[]" "[]"
      "dashboard_on (full_page(ById ''batteryPacksList'' := None))" noon]
  note e = gauges_guarded_writers_not [of full_page "''solarGauge''" 0 0 "[]" "[]" "[]"
      "dashboard_on (full_page(ById ''alertsList'' := None))" noon]
  from a [THEN conjunct1] page_without_gauges_solar
  have 1: "solarGauge (charts ?d) = None"
    by (simp add: dashboard_on_solarGauge)
  from a [THEN conjunct2, THEN conjunct1] 1
  have 2: "solarGauge (charts (updateCharts noon ?d)) = None"
    by (rule mp)
  have "\<forall>q. q \<notin> canvas_ids \<longrightarrow> document ?d q \<noteq> None"
    using page_without_gauges_present by (simp add: document_dashboard_on)
  with a [THEN conjunct2, THEN conjunct2, THEN conjunct2, THEN conjunct2, THEN conjunct2,
      THEN conjunct1]
  have 3: "\<exists>d'. updateDashboard noon ?d = Inr d'"
    by (rule mp)
  let ?w = "(''totalGeneration'',
      [Fixed1 (totalGeneration (generation initializeData)), Lit '' kW''])"
  have mem: "?w \<in> set (kpiTexts noon
      (currentData (dashboard_on (full_page(ById ''totalGeneration'' := None)))))"
    using totalGeneration_is_kpi [of initializeData noon] by (simp add: currentData_dashboard_on)
  have gone: "document (dashboard_on (full_page(ById ''totalGeneration'' := None)))
      (ById (fst ?w)) = None"
    by (simp add: document_dashboard_on)
  from b [THEN conjunct2, THEN conjunct2, THEN conjunct2, THEN conjunct2, THEN conjunct2,
      THEN conjunct2, THEN conjunct1, THEN bspec, OF mem] gone
  have 4: "updateDashboard noon (dashboard_on (full_page(ById ''totalGeneration'' := None)))
     = Inl TypeError"
    by (rule mp)
  have "document (dashboard_on (full_page(ById ''batteryPacksList'' := None)))
      (ById ''batteryPacksList'') = None"
    by (simp add: document_dashboard_on)
  with c [THEN conjunct2, THEN conjunct2, THEN conjunct2, THEN conjunct2, THEN conjunct2,
      THEN conjunct2, THEN conjunct2, THEN conjunct1]
  have 5: "updateBatteryPacks (dashboard_on (full_page(ById ''batteryPacksList'' := None)))
     = Inl TypeError"
    by (rule mp)
  have "document (dashboard_on (full_page(ById ''alertsList'' := None)))
      (ById ''alertsList'') = None"
    by (simp add: document_dashboard_on)
  with e [THEN conjunct2, THEN conjunct2, THEN conjunct2, THEN conjunct2, THEN conjunct2,
      THEN conjunct2, THEN conjunct2, THEN conjunct2]
  have 6: "updateAlerts (dashboard_on (full_page(ById ''alertsList'' := None))) = Inl TypeError"
    by (rule mp)
  from 1 2 3 4 5 6 page_without_gauges_solar show ?thesis
    by (intro conjI)
qed

section \<open>Properties of \<open>updateFromServer\<close>\<close>

subsection \<open>Objects and snapshots\<close>

lemma fmlookup_spread:
  "fmlookup (spread a b) k = (case fmlookup b k of Some v \<Rightarrow> Some v | None \<Rightarrow> fmlookup a k)"
  by (auto simp: spread_def split: option.splits dest: fmdom_notD)

lemma field_spread:
  "field (spread a b) k = (case fmlookup b k of Some v \<Rightarrow> v | None \<Rightarrow> field a k)"
  by (simp add: field_def fmlookup_spread split: option.splits)

lemma field_fmupd: "field (fmupd k v m) k' = (if k = k' then v else field m k')"
  by (simp add: field_def)

lemma field_fmempty: "field fmempty k = JUndefined"
  by (simp add: field_def)

lemmas readers = num_def str_def str_or_undefined_def obj_def arr_def js_string_def field_fmupd field_fmempty

lemma object_pack_roundtrip: "object_pack (pack_object p) = Some p"
  by (simp add: object_pack_def pack_object_def readers)

lemma object_alert_roundtrip: "object_alert (alert_object a) = Some a"
  by (cases "alert_type a"; cases "message a")
     (simp_all add: object_alert_def alert_object_def readers)

lemma those_map_roundtrip:
  "(\<And>x. g (f x) = Some x) \<Longrightarrow> those (map (g \<circ> f) xs) = Some xs"
  by (induction xs) simp_all

lemma object_generation_roundtrip: "object_generation (generation_object g) = Some g"
  by (simp add: object_generation_def generation_object_def object_solar_def object_wind_def
      object_cbg_def readers)

lemma object_storage_roundtrip: "object_storage (storage_object st) = Some st"
  by (simp add: object_storage_def storage_object_def readers those_map_roundtrip
      object_pack_roundtrip)

lemma object_demand_roundtrip: "object_demand (demand_object dm) = Some dm"
  by (simp add: object_demand_def demand_object_def readers)

lemma object_systemMetrics_roundtrip: "object_systemMetrics (systemMetrics_object m) = Some m"
  by (simp add: object_systemMetrics_def systemMetrics_object_def object_powerQuality_def readers)

lemma object_weather_roundtrip: "object_weather (weather_object w) = Some w"
  by (simp add: object_weather_def weather_object_def readers)

lemma snapshot_object_fields:
  "field (snapshot_object data) ''generation'' = generation_object (generation data)"
  "field (snapshot_object data) ''storage'' = storage_object (storage data)"
  "field (snapshot_object data) ''demand'' = demand_object (demand data)"
  "field (snapshot_object data) ''systemMetrics'' = systemMetrics_object (systemMetrics data)"
  "field (snapshot_object data) ''weather'' = weather_object (weather data)"
  "field (snapshot_object data) ''alerts'' = JArr (map alert_object (alerts data))"
  by (simp_all add: snapshot_object_def field_fmupd)

lemma object_snapshot_roundtrip: "object_snapshot (snapshot_object data) = Some data"
  by (simp add: object_snapshot_def snapshot_object_fields object_generation_roundtrip
      object_storage_roundtrip object_demand_roundtrip object_systemMetrics_roundtrip
      object_weather_roundtrip arr_def those_map_roundtrip object_alert_roundtrip)


lemma updatePowerFlowDiagram_keeps:
  "updatePowerFlowDiagram d = Inr d' \<Longrightarrow> charts d' = charts d \<and> currentData d' = currentData d"
  by (auto simp: updatePowerFlowDiagram_def Let_def map_sum_def split: sum.splits)

lemma updateBatteryPacks_keeps:
  "updateBatteryPacks d = Inr d' \<Longrightarrow> charts d' = charts d \<and> currentData d' = currentData d"
  by (auto simp: updateBatteryPacks_def split: option.splits)

lemma updateAlerts_keeps:
  "updateAlerts d = Inr d' \<Longrightarrow> charts d' = charts d \<and> currentData d' = currentData d"
  by (auto simp: updateAlerts_def split: option.splits)

lemma updateLoadBars_keeps:
  "updateLoadBars d = Inr d' \<Longrightarrow> charts d' = charts d \<and> currentData d' = currentData d"
  by (auto simp: updateLoadBars_def Let_def map_sum_def split: sum.splits)

lemma updateDashboard_keeps:
  assumes "updateDashboard r d = Inr d'"
  shows "charts d' = charts (updateCharts r d) \<and> currentData d' = currentData d"
proof -
  from assms obtain doc d1 d2 d3 where
    steps: "setTexts (kpiTexts r (currentData d)) (document d) = Inr doc"
      "updatePowerFlowDiagram (updateCharts r (d\<lparr> document := doc \<rparr>)) = Inr d1"
      "updateBatteryPacks d1 = Inr d2" "updateAlerts d2 = Inr d3" "updateLoadBars d3 = Inr d'"
    by (auto simp: updateDashboard_def split: sum.splits)
  have "charts (updateCharts r (d\<lparr> document := doc \<rparr>)) = charts (updateCharts r d)"
    "currentData (updateCharts r (d\<lparr> document := doc \<rparr>)) = currentData d"
    by (simp_all add: updateCharts_def Let_def)
  with updatePowerFlowDiagram_keeps [OF steps(2)] updateBatteryPacks_keeps [OF steps(3)]
    updateAlerts_keeps [OF steps(4)] updateLoadBars_keeps [OF steps(5)]
  show ?thesis by simp
qed

lemma fst_updateFromServer:
  "fst (updateFromServer r d newData) = spread (snapshot_object (currentData d)) newData"
  by (simp add: updateFromServer_def Let_def)



subsection \<open>Sequencing and property reads\<close>

lemma and_then_simps [simp]:
  "and_then (Inl err) f = Inl err" "and_then (Inr a) f = f a"
  by (simp_all add: and_then_def)














subsection \<open>The render on an object with the layout of the snapshot\<close>








lemma dashboard_js_sel [simp]:
  "js_currentData (dashboard_js p d) = p" "js_document (dashboard_js p d) = document d"
  "js_charts (dashboard_js p d) = charts_js (charts d)"
  by (simp_all add: dashboard_js_def)











subsection \<open>What a render that returns has done, and when it faults\<close>




















subsection \<open>The merge is by top-level key, and the render runs on the merged object\<close>











subsection \<open>The merge is shallow\<close>

text \<open>
  Claim C9. The value of a top-level key that the partial record provides is the incoming
  value as a whole: a nested field that the incoming object does not have is
  \<open>undefined\<close> after the merge, whatever the state held there. A record that holds only
  \<open>generation.solar\<close> loses \<open>generation.wind\<close>, \<open>generation.cbg\<close> and
  \<open>generation.totalGeneration\<close>.
\<close>

theorem updateFromServer_shallow:
  "(fmlookup newData k = Some v \<longrightarrow> field (fst (updateFromServer r d newData)) k = v) \<and>
   (fmlookup newData k = Some (JObj sub) \<and> fmlookup sub f = None \<longrightarrow>
      (\<exists>sub'. obj (field (fst (updateFromServer r d newData)) k) = Some sub' \<and>
         field sub' f = JUndefined))"
proof -
  have "field sub f = JUndefined" if "fmlookup sub f = None"
    using that by (simp add: field_def)
  then show ?thesis
    by (simp add: fst_updateFromServer field_spread obj_def)
qed

lemma generation_object_wind:
  "\<exists>sub. obj (field (snapshot_object data) ''generation'') = Some sub \<and>
     field sub ''wind'' \<noteq> JUndefined \<and> field sub ''cbg'' \<noteq> JUndefined \<and>
     field sub ''totalGeneration'' \<noteq> JUndefined"
  by (simp add: snapshot_object_fields generation_object_def obj_def field_fmupd)

theorem updateFromServer_shallow_witness:
  "(\<exists>sub. obj (field (snapshot_object initializeData) ''generation'') = Some sub \<and>
     field sub ''wind'' \<noteq> JUndefined \<and> field sub ''cbg'' \<noteq> JUndefined \<and>
     field sub ''totalGeneration'' \<noteq> JUndefined) \<and>
   (\<exists>sub'. obj (field (fst (updateFromServer noon (dashboard_on full_page) solar_only))
        ''generation'') = Some sub' \<and> field sub' ''wind'' = JUndefined) \<and>
   (\<exists>sub'. obj (field (fst (updateFromServer noon (dashboard_on full_page) solar_only))
        ''generation'') = Some sub' \<and> field sub' ''cbg'' = JUndefined) \<and>
   (\<exists>sub'. obj (field (fst (updateFromServer noon (dashboard_on full_page) solar_only))
        ''generation'') = Some sub' \<and> field sub' ''totalGeneration'' = JUndefined)"
proof -
  let ?g = "fmap_of_list
       [ (''solar'', JObj (fmap_of_list
           [ (''dcPower'', JNum 50), (''acPower'', JNum 47), (''efficiency'', JNum 94),
             (''irradiance'', JNum 950), (''moduleTemp'', JNum 40) ])) ]"
  have g: "fmlookup solar_only ''generation'' = Some (JObj ?g)"
    by (simp add: solar_only_def)
  have "fmlookup ?g ''wind'' = None" "fmlookup ?g ''cbg'' = None"
    "fmlookup ?g ''totalGeneration'' = None"
    by simp_all
  with g
    updateFromServer_shallow [of solar_only "''generation''" "JObj ?g" noon
      "dashboard_on full_page" ?g "''wind''"]
    updateFromServer_shallow [of solar_only "''generation''" "JObj ?g" noon
      "dashboard_on full_page" ?g "''cbg''"]
    updateFromServer_shallow [of solar_only "''generation''" "JObj ?g" noon
      "dashboard_on full_page" ?g "''totalGeneration''"]
    generation_object_wind [of initializeData]
  show ?thesis by blast
qed

end
